theory Spec2Isabelle
  imports Main
begin

section \<open>Strings as Python and the shell see them\<close>

text \<open>
  The stack in \<^verbatim>\<open>openmrs_ecs/openmrs_ecs_stack.py\<close> hands shell scripts, a JDBC URL and JSON
  templates to the resources it declares, all as Python strings. They are kept here as the
  strings of the source, and read by the small functions of this section.
\<close>

text \<open>Python's \<^verbatim>\<open>str.split(sep)\<close> for a one-element separator, on any list.\<close>

fun split_on :: "'a \<Rightarrow> 'a list \<Rightarrow> 'a list list" where
  "split_on sep [] = [[]]"
| "split_on sep (x # xs) =
     (if x = sep then [] # split_on sep xs
      else (case split_on sep xs of
              [] \<Rightarrow> [[x]]
            | w # ws \<Rightarrow> (x # w) # ws))"

text \<open>Python's \<^verbatim>\<open>sep.join(xs)\<close>.\<close>

fun join :: "string \<Rightarrow> string list \<Rightarrow> string" where
  "join sep [] = []"
| "join sep [x] = x"
| "join sep (x # y # ys) = x @ sep @ join sep (y # ys)"

text \<open>Python's \<^verbatim>\<open>s.startswith(p)\<close>.\<close>

fun startswith :: "string \<Rightarrow> string \<Rightarrow> bool" where
  "startswith s [] = True"
| "startswith [] (p # ps) = False"
| "startswith (c # cs) (p # ps) = (c = p \<and> startswith cs ps)"

text \<open>The decimal digits of a natural number, as \<^verbatim>\<open>str(n)\<close> and an f-string print them.\<close>

definition digit_char :: "nat \<Rightarrow> char" where
  "digit_char d = char_of (48 + d)"

fun str_nat_aux :: "nat \<Rightarrow> nat \<Rightarrow> string \<Rightarrow> string" where
  "str_nat_aux 0 n acc = acc"
| "str_nat_aux (Suc fuel) n acc =
     (if n < 10 then digit_char n # acc
      else str_nat_aux fuel (n div 10) (digit_char (n mod 10) # acc))"

definition str_nat :: "nat \<Rightarrow> string" where
  "str_nat n = str_nat_aux (Suc n) n []"

text \<open>Reading a decimal numeral; anything else is no number.\<close>

definition digit_val :: "char \<Rightarrow> nat option" where
  "digit_val c =
     (let k = of_char c :: nat in if 48 \<le> k \<and> k \<le> 57 then Some (k - 48) else None)"

fun nat_of_digits :: "nat \<Rightarrow> string \<Rightarrow> nat option" where
  "nat_of_digits acc [] = Some acc"
| "nat_of_digits acc (c # cs) =
     (case digit_val c of
        None \<Rightarrow> None
      | Some d \<Rightarrow> nat_of_digits (10 * acc + d) cs)"

definition nat_of_string :: "string \<Rightarrow> nat option" where
  "nat_of_string s = (if s = [] then None else nat_of_digits 0 s)"

section \<open>The shell scripts of the task definitions\<close>

text \<open>
  Every container of the stack that runs a script has \<^verbatim>\<open>entry_point=["/bin/sh", "-c"]\<close> and
  a one-element \<^verbatim>\<open>command\<close>: the script. The scripts of the source use blanks between
  words, single quotes, \<^verbatim>\<open>&&\<close> between commands and \<^verbatim>\<open>>\<close>, \<^verbatim>\<open>>>\<close> before a redirection
  target, each as a word of its own. \<open>shell_words\<close> splits a script into words the way
  the shell does for that fragment: blanks separate words, and single quotes keep
  everything up to the closing quote, the quotes themselves removed.
\<close>

fun lex_words :: "bool \<Rightarrow> bool \<Rightarrow> string \<Rightarrow> string \<Rightarrow> string list" where
  "lex_words quoted started cur [] = (if started then [cur] else [])"
| "lex_words quoted started cur (c # cs) =
     (if quoted then
        (if c = CHR 0x27 then lex_words False True cur cs
         else lex_words True True (cur @ [c]) cs)
      else if c = CHR 0x27 then lex_words True True cur cs
      else if c = CHR '' '' then
        (if started then cur # lex_words False False [] cs
         else lex_words False False [] cs)
      else lex_words False True (cur @ [c]) cs)"

definition shell_words :: "string \<Rightarrow> string list" where
  "shell_words s = lex_words False False [] s"

text \<open>The commands of an \<^verbatim>\<open>&&\<close> list, each as its words.\<close>

definition shell_commands :: "string \<Rightarrow> string list list" where
  "shell_commands s = split_on ''&&'' (shell_words s)"

text \<open>The word after an option, and the words that are neither options nor their values.\<close>

fun option_value :: "string \<Rightarrow> string list \<Rightarrow> string option" where
  "option_value opt [] = None"
| "option_value opt [w] = None"
| "option_value opt (w # v # ws) =
     (if w = opt then Some v else option_value opt (v # ws))"

fun operands :: "string list \<Rightarrow> string list \<Rightarrow> string list" where
  "operands valued [] = []"
| "operands valued [w] = (if startswith w ''-'' then [] else [w])"
| "operands valued (w # v # ws) =
     (if w \<in> set valued then operands valued ws
      else if startswith w ''-'' then operands valued (v # ws)
      else w # operands valued (v # ws))"

text \<open>
  The commands the scripts use, as far as they touch files. \<open>Genrsa bits out\<close> is
  \<^verbatim>\<open>openssl genrsa BITS > OUT\<close>; \<open>Req\<close> is \<^verbatim>\<open>openssl req\<close> with the options of the
  source; \<open>Curl insecure out url\<close> is \<^verbatim>\<open>curl [-k] -o OUT URL\<close>; \<open>S3Sync src dst\<close> is
  \<^verbatim>\<open>aws s3 sync SRC DST\<close>. Everything else is kept as its words.
\<close>

datatype shell_cmd =
    Cd string
  | Genrsa nat string
  | Req (req_new: bool) (req_x509: bool) (req_days: nat) (req_key: string)
        (req_out: string) (req_subj: string)
  | Curl bool string string
  | Mv string string
  | S3Sync string string
  | Other "string list"

definition parse_cmd :: "string list \<Rightarrow> shell_cmd" where
  "parse_cmd ws =
     (case ws of
        [] \<Rightarrow> Other ws
      | w # args \<Rightarrow>
          if w = ''cd'' then (case args of [d] \<Rightarrow> Cd d | _ \<Rightarrow> Other ws)
          else if w = ''mv'' then (case args of [a, b] \<Rightarrow> Mv a b | _ \<Rightarrow> Other ws)
          else if w = ''curl'' then
            (case (option_value ''-o'' args, operands [''-o''] args) of
               (Some out, [url]) \<Rightarrow> Curl (''-k'' \<in> set args) out url
             | _ \<Rightarrow> Other ws)
          else if w = ''aws'' then
            (case args of [a, b, src, dst] \<Rightarrow>
               if a = ''s3'' \<and> b = ''sync'' then S3Sync src dst else Other ws
             | _ \<Rightarrow> Other ws)
          else if w = ''openssl'' then
            (case args of
               [] \<Rightarrow> Other ws
             | sub # rest \<Rightarrow>
                 if sub = ''genrsa'' then
                   (case rest of
                      [bits, redir, out] \<Rightarrow>
                        (case nat_of_string bits of
                           Some n \<Rightarrow> if redir = ''>'' then Genrsa n out else Other ws
                         | None \<Rightarrow> Other ws)
                    | _ \<Rightarrow> Other ws)
                 else if sub = ''req'' then
                   (case (option_value ''-days'' rest, option_value ''-key'' rest,
                          option_value ''-out'' rest, option_value ''-subj'' rest) of
                      (Some d, Some k, Some out, Some subj) \<Rightarrow>
                        (case nat_of_string d of
                           Some n \<Rightarrow> Req (''-new'' \<in> set rest) (''-x509'' \<in> set rest) n k out subj
                         | None \<Rightarrow> Other ws)
                    | _ \<Rightarrow> Other ws)
                 else Other ws)
          else Other ws)"

definition parse_script :: "string \<Rightarrow> shell_cmd list" where
  "parse_script s = map parse_cmd (shell_commands s)"

subsection \<open>The script of the TLS generation job\<close>

text \<open>
  \<^verbatim>\<open>command_array\<close> of \<^verbatim>\<open>_create_and_maintain_tls_materials\<close>. The literal is an ordinary
  Python string: a backslash at the end of a line continues it, and the eight blanks that
  indent the next line belong to the string.
\<close>

definition tls_command_array :: "string list" where
  "tls_command_array =
     [''apk add openssl --no-check-certificate --no-cache && cd /etc/ssl/certs/ && '' @
      ''        openssl genrsa 2048 > /etc/ssl/certs/selfsigned.key.pem.tmp && '' @
      ''        openssl req -new -x509 -nodes -sha256 -days 365 -key /etc/ssl/certs/selfsigned.key.pem.tmp '' @
      ''        -outform PEM -out /etc/ssl/certs/selfsigned.cert.pem.tmp -subj '/CN=localhost' && '' @
      ''        curl -k -o /etc/ssl/certs/mysqltmp.pem https://truststore.pki.rds.amazonaws.com/global/global-bundle.pem && '' @
      ''        mv selfsigned.cert.pem.tmp cert.pem && '' @
      ''        mv selfsigned.key.pem.tmp privkey.pem && '' @
      ''        mv mysqltmp.pem mysql.pem'']"

definition tls_script :: "shell_cmd list" where
  "tls_script = concat (map parse_script tls_command_array)"

subsection \<open>What the commands do to files\<close>

text \<open>
  The tools are not part of the repository; their effect on files is taken from their
  manuals. A file holds a private key (its size and the key material), a certificate (the
  key it was signed with, its subject, its validity in days), a signing request, the body
  of a download, anything else, or it is still being written. \<open>files\<close> is what a
  container sees: a map from absolute paths to contents.
\<close>

type_synonym path = string

datatype file_content =
    RsaKey nat nat
  | Certificate nat string nat
  | SigningRequest nat string
  | Body string nat
  | Blob nat
  | Incomplete

type_synonym files = "path \<rightharpoonup> file_content"

text \<open>
  A run of the job has its own fresh key material and receives its own response from the
  server. Nothing in the script depends on which run it is.
\<close>

record invocation =
  key_material :: nat
  response :: nat

text \<open>
  What happens to files, one indivisible step at a time. A tool that writes a file opens it
  first (\<open>Truncate\<close>: the file exists and is not complete) and fills it later; \<^verbatim>\<open>mv\<close> within
  one file system is \<^verbatim>\<open>rename(2)\<close>, a single step.
\<close>

datatype action =
    Truncate path
  | PutKey path nat
  | PutCert path path bool nat string
  | PutBody path string
  | Rename path path

definition resolve :: "path \<Rightarrow> path \<Rightarrow> path" where
  "resolve cwd p =
     (if startswith p ''/'' then p
      else if cwd \<noteq> [] \<and> last cwd = CHR ''/'' then cwd @ p
      else cwd @ ''/'' @ p)"

text \<open>
  The steps of a script started in directory \<open>cwd\<close>. Commands that write no file of
  their own (\<^verbatim>\<open>apk add\<close>, \<^verbatim>\<open>aws s3 sync\<close> from a directory to a bucket) contribute none.
\<close>

fun actions_of :: "path \<Rightarrow> shell_cmd list \<Rightarrow> action list" where
  "actions_of cwd [] = []"
| "actions_of cwd (Cd d # cs) = actions_of (resolve cwd d) cs"
| "actions_of cwd (Genrsa bits out # cs) =
     Truncate (resolve cwd out) # PutKey (resolve cwd out) bits # actions_of cwd cs"
| "actions_of cwd (Req nw x509 days key out subj # cs) =
     Truncate (resolve cwd out) # PutCert (resolve cwd out) (resolve cwd key) x509 days subj #
     actions_of cwd cs"
| "actions_of cwd (Curl insecure out url # cs) =
     Truncate (resolve cwd out) # PutBody (resolve cwd out) url # actions_of cwd cs"
| "actions_of cwd (Mv a b # cs) = Rename (resolve cwd a) (resolve cwd b) # actions_of cwd cs"
| "actions_of cwd (S3Sync src dst # cs) = actions_of cwd cs"
| "actions_of cwd (Other ws # cs) = actions_of cwd cs"

text \<open>One step; \<open>None\<close> when the command fails (a missing input file).\<close>

fun perform :: "invocation \<Rightarrow> action \<Rightarrow> files \<Rightarrow> files option" where
  "perform i (Truncate p) fs = Some (fs(p \<mapsto> Incomplete))"
| "perform i (PutKey p bits) fs = Some (fs(p \<mapsto> RsaKey bits (key_material i)))"
| "perform i (PutCert out key x509 days subj) fs =
     (case fs key of
        Some (RsaKey bits k) \<Rightarrow>
          Some (fs(out \<mapsto> (if x509 then Certificate k subj days else SigningRequest k subj)))
      | _ \<Rightarrow> None)"
| "perform i (PutBody p url) fs = Some (fs(p \<mapsto> Body url (response i)))"
| "perform i (Rename a b) fs =
     (case fs a of
        None \<Rightarrow> None
      | Some c \<Rightarrow> Some ((fs(a := None))(b \<mapsto> c)))"

text \<open>
  A run of an \<^verbatim>\<open>&&\<close> list stops at the first command that fails. \<open>run\<close> gives whether
  every step succeeded and the files left behind, \<open>run_trace\<close> every state a reader of
  the volume can see on the way.
\<close>

fun run :: "invocation \<Rightarrow> action list \<Rightarrow> files \<Rightarrow> bool \<times> files" where
  "run i [] fs = (True, fs)"
| "run i (a # as) fs =
     (case perform i a fs of
        None \<Rightarrow> (False, fs)
      | Some fs' \<Rightarrow> run i as fs')"

fun run_trace :: "invocation \<Rightarrow> action list \<Rightarrow> files \<Rightarrow> files list" where
  "run_trace i [] fs = []"
| "run_trace i (a # as) fs =
     (case perform i a fs of
        None \<Rightarrow> []
      | Some fs' \<Rightarrow> fs' # run_trace i as fs')"

text \<open>
  Two runs on the same volume, their steps interleaved by a schedule: \<open>True\<close> lets the
  first run take its next step, \<open>False\<close> the second. A run whose step fails stops.
\<close>

fun interleave ::
  "bool list \<Rightarrow> invocation \<times> action list \<Rightarrow> invocation \<times> action list \<Rightarrow> files \<Rightarrow> files" where
  "interleave [] p q fs = fs"
| "interleave (True # sched) (i, []) q fs = interleave sched (i, []) q fs"
| "interleave (True # sched) (i, a # as) q fs =
     (case perform i a fs of
        None \<Rightarrow> interleave sched (i, []) q fs
      | Some fs' \<Rightarrow> interleave sched (i, as) q fs')"
| "interleave (False # sched) p (j, []) fs = interleave sched p (j, []) fs"
| "interleave (False # sched) p (j, b # bs) fs =
     (case perform j b fs of
        None \<Rightarrow> interleave sched p (j, []) fs
      | Some fs' \<Rightarrow> interleave sched p (j, bs) fs')"

text \<open>The files an action writes into, the renames of a script, and its downloads.\<close>

fun write_target :: "action \<Rightarrow> path option" where
  "write_target (Truncate p) = Some p"
| "write_target (PutKey p bits) = Some p"
| "write_target (PutCert out key x509 days subj) = Some out"
| "write_target (PutBody p url) = Some p"
| "write_target (Rename a b) = None"

fun renames :: "action list \<Rightarrow> (path \<times> path) list" where
  "renames [] = []"
| "renames (Rename a b # as) = (a, b) # renames as"
| "renames (a # as) = renames as"

text \<open>
  \<open>staged ready as\<close>: every rename of \<open>as\<close> takes a file that was written completely
  before (\<open>ready\<close> holds the files complete so far) and that was not a final name itself.
\<close>

fun staged :: "path list \<Rightarrow> action list \<Rightarrow> bool" where
  "staged ready [] = True"
| "staged ready (Truncate p # as) = staged (removeAll p ready) as"
| "staged ready (PutKey p bits # as) = staged (p # ready) as"
| "staged ready (PutCert out key x509 days subj # as) = staged (out # ready) as"
| "staged ready (PutBody p url # as) = staged (p # ready) as"
| "staged ready (Rename a b # as) = (a \<in> set ready \<and> a \<noteq> b \<and> staged (removeAll a ready) as)"

text \<open>The job: the script of the task definition, started in the image's working directory.\<close>

definition tls_actions :: "path \<Rightarrow> action list" where
  "tls_actions cwd = actions_of cwd tls_script"

definition tls_final_paths :: "path list" where
  "tls_final_paths =
     [''/etc/ssl/certs/cert.pem'', ''/etc/ssl/certs/privkey.pem'', ''/etc/ssl/certs/mysql.pem'']"

definition tls_temporary_paths :: "path list" where
  "tls_temporary_paths =
     [''/etc/ssl/certs/selfsigned.cert.pem.tmp'', ''/etc/ssl/certs/selfsigned.key.pem.tmp'',
      ''/etc/ssl/certs/mysqltmp.pem'']"

definition rds_bundle_url :: string where
  "rds_bundle_url = ''https://truststore.pki.rds.amazonaws.com/global/global-bundle.pem''"

text \<open>What a complete run of invocation \<open>i\<close> puts under each final name.\<close>

definition tls_materials :: "invocation \<Rightarrow> files" where
  "tls_materials i =
     [''/etc/ssl/certs/cert.pem'' \<mapsto> Certificate (key_material i) ''/CN=localhost'' 365,
      ''/etc/ssl/certs/privkey.pem'' \<mapsto> RsaKey 2048 (key_material i),
      ''/etc/ssl/certs/mysql.pem'' \<mapsto> Body rds_bundle_url (response i)]"

text \<open>The certificate on the volume belongs to the private key on the volume.\<close>

definition matching_pair :: "files \<Rightarrow> bool" where
  "matching_pair fs =
     (case (fs ''/etc/ssl/certs/cert.pem'', fs ''/etc/ssl/certs/privkey.pem'') of
        (Some (Certificate k subj days), Some (RsaKey bits k')) \<Rightarrow> k = k'
      | _ \<Rightarrow> False)"

text \<open>
  A download is over an authenticated transport when the URL is \<^verbatim>\<open>https\<close> and the
  server's certificate is verified: \<^verbatim>\<open>curl -k\<close> (\<^verbatim>\<open>--insecure\<close>) switches the verification off.
\<close>

fun authenticated_fetch :: "shell_cmd \<Rightarrow> bool" where
  "authenticated_fetch (Curl insecure out url) = (startswith url ''https://'' \<and> \<not> insecure)"
| "authenticated_fetch c = True"

fun is_fetch :: "shell_cmd \<Rightarrow> bool" where
  "is_fetch (Curl insecure out url) = True"
| "is_fetch c = False"

section \<open>The stack\<close>

text \<open>
  \<^verbatim>\<open>OpenmrsEcsStack.__init__\<close> declares resources one method after the other. The model keeps,
  of every method, the resources and settings that the bootstrap lifecycle is made of:
  secrets, Lambda functions and triggers, the schedule rule, task definitions with their
  containers and mount points, the service, and the dependency edges added with
  \<^verbatim>\<open>node.add_dependency\<close>. Resources of the network, the load balancer, the firewall, the
  database cluster, backups and the analytics domain are referred to by their construct
  identifiers only.
\<close>

subsection \<open>Inputs\<close>

text \<open>
  The deployment context (\<^verbatim>\<open>cdk.json\<close>, \<^verbatim>\<open>-c key=value\<close>): the values
  \<^verbatim>\<open>self.node.try_get_context\<close> returns, \<open>None\<close> for a missing key. Only the keys that
  decide which of the modelled resources exist are kept, as strings.
\<close>

record cdk_context =
  certificate_arn :: "string option"
  route53_domain :: "string option"
  configure_ses :: "string option"
  email_forwarding_address :: "string option"
  create_serverless_analytics_environment :: "string option"
  openmrs_reference_application_version :: "string option"

text \<open>Python's truth value of a context entry, and what an f-string prints for it.\<close>

definition truthy :: "string option \<Rightarrow> bool" where
  "truthy v = (case v of None \<Rightarrow> False | Some s \<Rightarrow> s \<noteq> [])"

definition py_str :: "string option \<Rightarrow> string" where
  "py_str v = (case v of None \<Rightarrow> ''None'' | Some s \<Rightarrow> s)"

text \<open>
  Values that exist at deployment only and that the source splices into strings: the
  identifiers of the private subnets, the host name of the database endpoint, and the parts
  of the name of the export bucket.
\<close>

record world =
  private_subnet_ids :: "string list"
  cluster_endpoint_hostname :: string
  unique_id :: string
  account :: string
  region :: string

text \<open>References to attributes of other constructs, resolved at deployment.\<close>

datatype token =
    Str string
  | ClusterArn string
  | TaskDefinitionArn string
  | SecurityGroupId string
  | SecretArn string
  | SecretAccessKey string
  | AccessKeyId string
  | ReceiptRuleSetName string
  | BucketName string
  | EmailIdentityArn string

datatype py_error = AttributeError string

subsection \<open>Resources\<close>

datatype duration = Minutes nat | Days nat

datatype schedule = Rate duration

record policy_statement =
  actions :: "string list"
  resources :: "string list"
  conditions :: "(string \<times> string \<times> token) list"

text \<open>
  A Lambda function. \<open>is_trigger\<close> tells a \<^verbatim>\<open>triggers.TriggerFunction\<close>, which the
  deployment invokes once when it creates it, from a plain \<^verbatim>\<open>_lambda.Function\<close>.
\<close>

record lambda_function =
  runtime :: string
  code :: string
  architecture :: string
  handler :: string
  timeout :: "duration option"
  environment :: "(string \<times> token) list"
  role_policy :: "policy_statement list"
  is_trigger :: bool

record event_rule =
  rule_schedule :: schedule
  targets :: "string list"

record efs_volume_configuration =
  file_system_id :: string
  transit_encryption :: string

record mount_point =
  container_path :: path
  read_only :: bool
  source_volume :: string

datatype container_secret =
    FromSecretsManager string string
  | FromSsmParameter string

record container_definition =
  container_name :: string
  image_name :: string
  user :: string
  essential :: bool
  entry_point :: "string list"
  command :: "string list"
  container_environment :: "(string \<times> string) list"
  container_secrets :: "(string \<times> container_secret) list"
  mount_points :: "mount_point list"

record task_definition =
  volumes :: "(string \<times> efs_volume_configuration) list"
  containers :: "(string \<times> container_definition) list"

record fargate_service =
  service_certificate :: "string option"
  service_cluster :: string
  service_task_definition :: string
  target_protocol :: string

text \<open>
  A secret is declared with a generator (\<^verbatim>\<open>SecretStringGenerator\<close>), with an object of
  values (\<^verbatim>\<open>secret_object_value\<close>), or with neither.
\<close>

datatype secret =
    GenerateSecretString (exclude_punctuation: bool) (include_space: bool)
      (secret_string_template: string) (generate_string_key: string)
  | SecretObjectValue "(string \<times> token) list"
  | PlainSecret

record stack =
  number_of_days_to_regenerate_ssl_materials :: nat
  mysql_port :: nat
  gateway_container_port :: nat
  frontend_container_port :: nat
  backend_container_port :: nat
  secrets :: "(string \<times> secret) list"
  lambda_functions :: "(string \<times> lambda_function) list"
  event_rules :: "(string \<times> event_rule) list"
  task_definitions :: "(string \<times> task_definition) list"
  services :: "(string \<times> fargate_service) list"
  run_grants :: "(string \<times> string) list"
  dependencies :: "(string \<times> string) list"
  certificate :: "string option"
  mail_user :: "string option"
  smtp_password :: "string option"
  efs_volume_configuration_for_data_storage :: efs_volume_configuration
  efs_volume_configuration_for_ssl_folder :: efs_volume_configuration

text \<open>Adding to the tables of the stack, as the constructors and the methods of CDK do.\<close>

definition add_secret :: "string \<Rightarrow> secret \<Rightarrow> stack \<Rightarrow> stack" where
  "add_secret name x s = secrets_update (\<lambda>xs. xs @ [(name, x)]) s"

definition add_function :: "string \<Rightarrow> lambda_function \<Rightarrow> stack \<Rightarrow> stack" where
  "add_function name f s = lambda_functions_update (\<lambda>fs. fs @ [(name, f)]) s"

fun update_named :: "string \<Rightarrow> ('a \<Rightarrow> 'a) \<Rightarrow> (string \<times> 'a) list \<Rightarrow> (string \<times> 'a) list" where
  "update_named name g [] = []"
| "update_named name g ((n, f) # xs) =
     (if n = name then (n, g f) else (n, f)) # update_named name g xs"

definition update_function ::
  "string \<Rightarrow> (lambda_function \<Rightarrow> lambda_function) \<Rightarrow> stack \<Rightarrow> stack" where
  "update_function name g s = lambda_functions_update (update_named name g) s"

definition add_environment :: "string \<Rightarrow> string \<Rightarrow> token \<Rightarrow> stack \<Rightarrow> stack" where
  "add_environment name key v s =
     update_function name (environment_update (\<lambda>kvs. kvs @ [(key, v)])) s"

definition add_to_role_policy :: "string \<Rightarrow> policy_statement \<Rightarrow> stack \<Rightarrow> stack" where
  "add_to_role_policy name p s =
     update_function name (role_policy_update (\<lambda>ps. ps @ [p])) s"

definition grant_run :: "string \<Rightarrow> string \<Rightarrow> stack \<Rightarrow> stack" where
  "grant_run task name s = run_grants_update (\<lambda>gs. gs @ [(task, name)]) s"

definition add_rule :: "string \<Rightarrow> event_rule \<Rightarrow> stack \<Rightarrow> stack" where
  "add_rule name r s = event_rules_update (\<lambda>rs. rs @ [(name, r)]) s"

definition add_task_definition :: "string \<Rightarrow> task_definition \<Rightarrow> stack \<Rightarrow> stack" where
  "add_task_definition name t s = task_definitions_update (\<lambda>ts. ts @ [(name, t)]) s"

definition add_service :: "string \<Rightarrow> fargate_service \<Rightarrow> stack \<Rightarrow> stack" where
  "add_service name x s = services_update (\<lambda>xs. xs @ [(name, x)]) s"

text \<open>\<^verbatim>\<open>a.node.add_dependency(b)\<close>: \<open>a\<close> is deployed only after \<open>b\<close>.\<close>

definition add_dependency :: "string \<Rightarrow> string \<Rightarrow> stack \<Rightarrow> stack" where
  "add_dependency a b s = dependencies_update (\<lambda>ds. ds @ [(a, b)]) s"

text \<open>The arguments every Lambda function of the stack is declared with.\<close>

definition python_lambda :: "string \<Rightarrow> duration option \<Rightarrow> bool \<Rightarrow> lambda_function" where
  "python_lambda h t trig =
     \<lparr>runtime = ''PYTHON_3_13'', code = ''lambda'', architecture = ''ARM_64'', handler = h,
      timeout = t, environment = [], role_policy = [], is_trigger = trig\<rparr>"

definition run_task_statement :: policy_statement where
  "run_task_statement =
     \<lparr>actions = [''ecs:RunTask'', ''ecs:DescribeTasks''], resources = [''*''],
      conditions = [(''ArnEquals'', ''ecs:cluster'', ClusterArn ''ecs-cluster'')]\<rparr>"

subsection \<open>The methods\<close>

text \<open>The assignments at the head of \<^verbatim>\<open>__init__\<close>.\<close>

definition initial_stack :: stack where
  "initial_stack =
     \<lparr>number_of_days_to_regenerate_ssl_materials = 2,
      mysql_port = 3306,
      gateway_container_port = 8082,
      frontend_container_port = 80,
      backend_container_port = 8080,
      secrets = [], lambda_functions = [], event_rules = [], task_definitions = [], services = [],
      run_grants = [], dependencies = [],
      certificate = None, mail_user = None, smtp_password = None,
      efs_volume_configuration_for_data_storage = \<lparr>file_system_id = [], transit_encryption = []\<rparr>,
      efs_volume_configuration_for_ssl_folder = \<lparr>file_system_id = [], transit_encryption = []\<rparr>\<rparr>"

text \<open>\<^verbatim>\<open>_create_and_configure_dns_and_certificates\<close>: with a domain, a certificate for it.\<close>

definition create_and_configure_dns_and_certificates :: "cdk_context \<Rightarrow> stack \<Rightarrow> stack" where
  "create_and_configure_dns_and_certificates ctx s =
     (if truthy (route53_domain ctx) then s\<lparr>certificate := Some ''Certificate''\<rparr> else s)"

text \<open>
  \<^verbatim>\<open>_configure_ses\<close>: only with a domain and \<^verbatim>\<open>configure_ses\<close> equal to \<^verbatim>\<open>'true'\<close>. The two
  secrets, the trigger that stores the SMTP password, the attributes the service reads
  later, the forwarding function when an address is given, and the trigger that activates
  the rule set.
\<close>

definition configure_ses_method :: "cdk_context \<Rightarrow> stack \<Rightarrow> stack" where
  "configure_ses_method ctx s =
     (if truthy (route53_domain ctx) \<and> configure_ses ctx = Some ''true'' then
        (let s1 = add_secret ''smtp-secret'' PlainSecret s;
             s2 = s1\<lparr>smtp_password := Some ''smtp-secret''\<rparr>;
             s3 = add_secret ''secret-access-key''
                    (SecretObjectValue [(''password'', SecretAccessKey ''SmtpAccessKey'')]) s2;
             s4 = add_function ''SMTPSetup''
                    (python_lambda ''lambda_functions.generate_smtp_credential''
                       (Some (Minutes 10)) True) s3;
             s5 = add_environment ''SMTPSetup'' ''SECRET_ACCESS_KEY'' (SecretArn ''secret-access-key'') s4;
             s6 = add_environment ''SMTPSetup'' ''SMTP_PASSWORD'' (SecretArn ''smtp-secret'') s5;
             s7 = s6\<lparr>mail_user := Some ''mail_user''\<rparr>;
             s8 = (if truthy (email_forwarding_address ctx) then
                     add_function ''EmailForwardingLambda''
                       ((python_lambda ''lambda_functions.send_email'' None False)
                          \<lparr>environment :=
                             [(''FORWARD_TO'', Str (py_str (email_forwarding_address ctx))),
                              (''SOURCE_ARN'', EmailIdentityArn ''SESIdentity''),
                              (''SOURCE_NAME'', Str (''help@'' @ py_str (route53_domain ctx))),
                              (''BUCKET_NAME'', BucketName ''EmailStorageBucket'')]\<rparr>) s7
                   else s7);
             s9 = add_function ''MakeRuleSetActive''
                    ((python_lambda ''lambda_functions.make_ruleset_active''
                        (Some (Minutes 10)) True)
                       \<lparr>environment := [(''RULE_SET_NAME'', ReceiptRuleSetName ''RuleSet'')]\<rparr>) s8
         in add_to_role_policy ''MakeRuleSetActive''
              \<lparr>actions = [''ses:SetActiveReceiptRuleSet''], resources = [''*''], conditions = []\<rparr> s9)
      else s)"

text \<open>\<^verbatim>\<open>_create_waf\<close>: the web ACL waits for the load balancer.\<close>

definition create_waf :: "stack \<Rightarrow> stack" where
  "create_waf s = add_dependency ''web-acl'' ''Load-Balancer'' s"

text \<open>\<^verbatim>\<open>_create_password\<close> and the secret of \<^verbatim>\<open>_create_db_instance\<close>.\<close>

definition create_password :: "stack \<Rightarrow> stack" where
  "create_password s =
     add_secret ''Password''
       (GenerateSecretString True False ''{\"username\": \"admin\"}'' ''password'') s"

definition create_db_instance :: "stack \<Rightarrow> stack" where
  "create_db_instance s =
     add_secret ''db-secret''
       (GenerateSecretString True False ''{\"username\": \"dbadmin\"}'' ''password'') s"

text \<open>\<^verbatim>\<open>_create_efs_volume\<close>: one file system for the data, one for the TLS folder.\<close>

definition create_efs_volume :: "stack \<Rightarrow> stack" where
  "create_efs_volume s =
     s\<lparr>efs_volume_configuration_for_data_storage :=
         \<lparr>file_system_id = ''EfsFileSystemForFileStorage'', transit_encryption = ''ENABLED''\<rparr>,
       efs_volume_configuration_for_ssl_folder :=
         \<lparr>file_system_id = ''EfsFileSystemForSslFolder'', transit_encryption = ''ENABLED''\<rparr>\<rparr>"

text \<open>\<^verbatim>\<open>_create_ecs_cluster\<close>: the cluster waits for the database.\<close>

definition create_ecs_cluster :: "stack \<Rightarrow> stack" where
  "create_ecs_cluster s = add_dependency ''ecs-cluster'' ''DatabaseCluster'' s"

subsection \<open>Strings the methods build\<close>

text \<open>
  \<^verbatim>\<open>gateway_command_array\<close> of \<^verbatim>\<open>_create_openmrs_service\<close>, an f-string: the port is
  printed into it. A backslash before a blank is no escape of Python and stays; at the end
  of a line it continues the line, and the thirteen blanks of the indentation stay too.
\<close>

definition gateway_command_array :: "nat \<Rightarrow> string list" where
  "gateway_command_array port =
     [''echo '127.0.0.1 frontend' >> /etc/hosts && '' @
      ''             echo '127.0.0.1 backend' >> /etc/hosts && '' @
      ''             sed '/  listen       80;/a'' @ [CHR 0x5C] @
        ''  ssl_certificate_key       /etc/ssl/certs/privkey.pem;' -i /etc/nginx/templates/default.conf.template && '' @
      ''             sed '/  listen       80;/a'' @ [CHR 0x5C] @
        ''  ssl_certificate       /etc/ssl/certs/cert.pem;' -i /etc/nginx/templates/default.conf.template && '' @
      ''             sed -i 's|listen       80;|listen       '' @ str_nat port @
        '' ssl;|g' /etc/nginx/templates/default.conf.template && '' @
      ''             /docker-entrypoint.sh nginx '-g daemon off;'' @ [CHR 0x27]]"

text \<open>
  \<^verbatim>\<open>connection_url\<close> of the same method, an f-string over five continued lines: the
  twenty-five blanks that indent each of them are part of the URL.
\<close>

definition connection_url :: "string \<Rightarrow> nat \<Rightarrow> string" where
  "connection_url hostname port =
     ''jdbc:mysql://'' @ hostname @ '':'' @ str_nat port @ ''/'' @
     ''                         openmrs?autoReconnect=true&useSSL=true'' @
     ''                         &sessionVariables=default_storage_engine=InnoDB&useUnicode=true'' @
     ''                         &characterEncoding=UTF-8'' @
     ''                         &trustServerCertificate=true&verifyServerCertificate=false'' @
     ''                         &trustCertificateKeyStoreUrl=file:/etc/ssl/certs/mysql.pem''"

text \<open>
  \<^verbatim>\<open>command_array\<close> of the export task in \<^verbatim>\<open>_create_serverless_analytics_environment\<close>, with
  the name of the export bucket printed into it.
\<close>

definition sync_command_array :: "string \<Rightarrow> string list" where
  "sync_command_array bucket_name =
     [''yum install awscli -y && '' @
      ''                             aws s3 sync /openmrs/data/ s3://'' @ bucket_name]"

definition export_bucket_efs_name :: "world \<Rightarrow> string" where
  "export_bucket_efs_name w =
     ''sagemaker-efs-export-'' @ unique_id w @ ''-'' @ account w @ ''-'' @ region w"

subsection \<open>The methods of the bootstrap lifecycle\<close>

text \<open>
  \<^verbatim>\<open>_create_and_maintain_tls_materials\<close>: the task that runs the script on the TLS volume,
  the function the schedule invokes, the schedule, and the trigger that runs once. The
  local variables of the source that hold a declaration are definitions of their own here.
\<close>

definition ssl_maintenance_container :: "cdk_context \<Rightarrow> container_definition" where
  "ssl_maintenance_container ctx =
     \<lparr>container_name = ''openmrs'',
      image_name = ''openmrs/openmrs-reference-application-3-gateway:'' @
        py_str (openmrs_reference_application_version ctx),
      user = ''0:0'', essential = True,
      entry_point = [''/bin/sh'', ''-c''],
      command = tls_command_array,
      container_environment = [], container_secrets = [],
      mount_points =
        [\<lparr>container_path = ''/etc/ssl/certs/'', read_only = False,
          source_volume = ''SslFolderVolume''\<rparr>]\<rparr>"

definition create_ssl_materials_task :: "cdk_context \<Rightarrow> stack \<Rightarrow> task_definition" where
  "create_ssl_materials_task ctx s =
     \<lparr>volumes = [(''SslFolderVolume'', efs_volume_configuration_for_ssl_folder s)],
      containers = [(''SSLMaintenanceContainer'', ssl_maintenance_container ctx)]\<rparr>"

definition private_subnet_id_string :: "world \<Rightarrow> string" where
  "private_subnet_id_string w = join '','' (private_subnet_ids w)"

definition create_and_maintain_tls_materials :: "cdk_context \<Rightarrow> world \<Rightarrow> stack \<Rightarrow> stack" where
  "create_and_maintain_tls_materials ctx w s =
     (let security_group_id = SecurityGroupId ''EFSOnlySecurityGroup'';
          s1 = add_task_definition ''CreateSSLMaterialsTaskDefinition'' (create_ssl_materials_task ctx s) s;
          s2 = add_function ''MaintainSSLMaterialsLambda''
                 (python_lambda ''lambda_functions.generate_ssl_materials'' (Some (Minutes 10)) False) s1;
          s3 = grant_run ''CreateSSLMaterialsTaskDefinition'' ''MaintainSSLMaterialsLambda'' s2;
          s4 = add_to_role_policy ''MaintainSSLMaterialsLambda'' run_task_statement s3;
          s5 = add_environment ''MaintainSSLMaterialsLambda'' ''ECS_CLUSTER'' (ClusterArn ''ecs-cluster'') s4;
          s6 = add_environment ''MaintainSSLMaterialsLambda'' ''TASK_DEFINITION''
                 (TaskDefinitionArn ''CreateSSLMaterialsTaskDefinition'') s5;
          s7 = add_environment ''MaintainSSLMaterialsLambda'' ''SUBNETS''
                 (Str (private_subnet_id_string w)) s6;
          s8 = add_environment ''MaintainSSLMaterialsLambda'' ''SECURITY_GROUPS'' security_group_id s7;
          s9 = add_rule ''RegularScheduleforSSLMaintenance''
                 \<lparr>rule_schedule = Rate (Days (number_of_days_to_regenerate_ssl_materials s)),
                  targets = [''MaintainSSLMaterialsLambda'']\<rparr> s8;
          s10 = add_function ''OneTimeSSLSetup''
                  (python_lambda ''lambda_functions.generate_ssl_materials'' (Some (Minutes 10)) True) s9;
          s11 = grant_run ''CreateSSLMaterialsTaskDefinition'' ''OneTimeSSLSetup'' s10;
          s12 = add_to_role_policy ''OneTimeSSLSetup'' run_task_statement s11;
          s13 = add_environment ''OneTimeSSLSetup'' ''ECS_CLUSTER'' (ClusterArn ''ecs-cluster'') s12;
          s14 = add_environment ''OneTimeSSLSetup'' ''TASK_DEFINITION''
                  (TaskDefinitionArn ''CreateSSLMaterialsTaskDefinition'') s13;
          s15 = add_environment ''OneTimeSSLSetup'' ''SUBNETS'' (Str (private_subnet_id_string w)) s14
      in add_environment ''OneTimeSSLSetup'' ''SECURITY_GROUPS'' security_group_id s15)"

text \<open>
  \<^verbatim>\<open>_perpare_data_efs_for_openmrs_service\<close>: the task that copies the image's data
  directory onto the data volume, and the trigger that runs it once.
\<close>

definition initial_data_sync_to_efs_container :: "cdk_context \<Rightarrow> container_definition" where
  "initial_data_sync_to_efs_container ctx =
     \<lparr>container_name = ''openmrs'',
      image_name = ''openmrs/openmrs-reference-application-3-backend:'' @
        py_str (openmrs_reference_application_version ctx),
      user = ''0:0'', essential = True,
      entry_point = [''/bin/sh'', ''-c''],
      command = [''cp -r /openmrs/data/. /tmp/data''],
      container_environment = [], container_secrets = [],
      mount_points =
        [\<lparr>container_path = ''/tmp/data/'', read_only = False,
          source_volume = ''TemporaryDataVolume''\<rparr>]\<rparr>"

definition write_openmrs_data_to_data_efs_task :: "cdk_context \<Rightarrow> stack \<Rightarrow> task_definition" where
  "write_openmrs_data_to_data_efs_task ctx s =
     \<lparr>volumes = [(''TemporaryDataVolume'', efs_volume_configuration_for_data_storage s)],
      containers = [(''OneTimePrepareEFSContainer'', initial_data_sync_to_efs_container ctx)]\<rparr>"

definition perpare_data_efs_for_openmrs_service :: "cdk_context \<Rightarrow> world \<Rightarrow> stack \<Rightarrow> stack" where
  "perpare_data_efs_for_openmrs_service ctx w s =
     (let security_group_id = SecurityGroupId ''EFSOnlySecurityGroup'';
          s1 = add_task_definition ''WriteOpenMRSDatatoDataEFSTask''
                 (write_openmrs_data_to_data_efs_task ctx s) s;
          s2 = add_function ''OneTimeEFSDataSetup''
                 (python_lambda ''lambda_functions.initial_openmrs_data_sync_to_efs''
                    (Some (Minutes 10)) True) s1;
          s3 = grant_run ''WriteOpenMRSDatatoDataEFSTask'' ''OneTimeEFSDataSetup'' s2;
          s4 = add_to_role_policy ''OneTimeEFSDataSetup'' run_task_statement s3;
          s5 = add_environment ''OneTimeEFSDataSetup'' ''ECS_CLUSTER'' (ClusterArn ''ecs-cluster'') s4;
          s6 = add_environment ''OneTimeEFSDataSetup'' ''TASK_DEFINITION''
                 (TaskDefinitionArn ''WriteOpenMRSDatatoDataEFSTask'') s5;
          s7 = add_environment ''OneTimeEFSDataSetup'' ''SUBNETS'' (Str (private_subnet_id_string w)) s6
      in add_environment ''OneTimeEFSDataSetup'' ''SECURITY_GROUPS'' security_group_id s7)"

text \<open>
  The secrets of the backend container. With \<^verbatim>\<open>configure_ses\<close> equal to \<^verbatim>\<open>"true"\<close> the method
  reads \<^verbatim>\<open>self.mail_user\<close> and \<^verbatim>\<open>self.smtp_password\<close>, which exist only when
  \<^verbatim>\<open>_configure_ses\<close> has set them: otherwise Python raises \<^verbatim>\<open>AttributeError\<close>.
\<close>

definition backend_secrets :: "cdk_context \<Rightarrow> stack \<Rightarrow> py_error + (string \<times> container_secret) list" where
  "backend_secrets ctx s =
     (let base =
            [(''OMRS_DB_USERNAME'', FromSecretsManager ''db-secret'' ''username''),
             (''OMRS_DB_PASSWORD'', FromSecretsManager ''db-secret'' ''password''),
             (''OMRS_ADMIN_USER_PASSWORD'', FromSecretsManager ''Password'' ''password'')]
      in if configure_ses ctx = Some ''true'' then
           (case mail_user s of
              None \<Rightarrow> Inl (AttributeError ''mail_user'')
            | Some u \<Rightarrow>
                (case smtp_password s of
                   None \<Rightarrow> Inl (AttributeError ''smtp_password'')
                 | Some p \<Rightarrow>
                     Inr (base @
                       [(''OMRS_EXTRA_MAIL_USER'', FromSsmParameter u),
                        (''OMRS_EXTRA_MAIL_PASSWORD'', FromSecretsManager p ''password''),
                        (''OMRS_EXTRA_MAIL_SMTP__HOST'', FromSsmParameter ''smtp_host''),
                        (''OMRS_EXTRA_MAIL_SMTP__PORT'', FromSsmParameter ''smtp_port''),
                        (''OMRS_EXTRA_MAIL_TRANSPORT__PROTOCOL'', FromSsmParameter ''mail_transport_protocol''),
                        (''OMRS_EXTRA_MAIL_SMTP__AUTH'', FromSsmParameter ''smtp_auth''),
                        (''OMRS_EXTRA_MAIL_SMTP_STARTTLS_ENABLE'', FromSsmParameter ''smtp_tls_enable''),
                        (''OMRS_EXTRA_MAIL_FROM'', FromSsmParameter ''mail_from'')])))
         else Inr base)"

text \<open>
  \<^verbatim>\<open>_create_openmrs_service\<close>: the task definition with the gateway, the frontend and the
  backend, the load-balanced service, and the one dependency the method adds to it.
\<close>

definition efs_mount_point_for_data_storage :: mount_point where
  "efs_mount_point_for_data_storage =
     \<lparr>container_path = ''/openmrs/data/'', read_only = False, source_volume = ''DataFolderVolume''\<rparr>"

definition efs_mount_point_for_ssl_folder :: mount_point where
  "efs_mount_point_for_ssl_folder =
     \<lparr>container_path = ''/etc/ssl/certs/'', read_only = False, source_volume = ''SslFolderVolume''\<rparr>"

definition gateway_openmrs_container :: "cdk_context \<Rightarrow> stack \<Rightarrow> container_definition" where
  "gateway_openmrs_container ctx s =
     \<lparr>container_name = ''openmrsgateway'',
      image_name = ''openmrs/openmrs-reference-application-3-gateway:'' @
        py_str (openmrs_reference_application_version ctx),
      user = ''0:0'', essential = True,
      entry_point = [''/bin/sh'', ''-c''],
      command = gateway_command_array (gateway_container_port s),
      container_environment = [], container_secrets = [],
      mount_points = [efs_mount_point_for_ssl_folder]\<rparr>"

definition frontend_openmrs_container :: "cdk_context \<Rightarrow> container_definition" where
  "frontend_openmrs_container ctx =
     \<lparr>container_name = ''openmrsfrontend'',
      image_name = ''openmrs/openmrs-reference-application-3-frontend:'' @
        py_str (openmrs_reference_application_version ctx),
      user = ''0:0'', essential = True,
      entry_point = [], command = [],
      container_environment =
        [(''SPA_PATH'', ''/openmrs/spa''), (''API_URL'', ''/openmrs''),
         (''SPA_CONFIG_URLS'', ''/openmrs/spa/config-core_demo.json''),
         (''SPA_DEFAULT_LOCALE'', [])],
      container_secrets = [], mount_points = []\<rparr>"

definition backend_environment :: "world \<Rightarrow> stack \<Rightarrow> (string \<times> string) list" where
  "backend_environment w s =
     [(''OMRS_DB_HOSTNAME'', cluster_endpoint_hostname w),
      (''OMRS_CONFIG_CONNECTION_URL'', connection_url (cluster_endpoint_hostname w) (mysql_port s)),
      (''OMRS_AUTO_UPDATE_DATABASE'', ''true''),
      (''OMRS_CREATE_TABLES'', ''true''),
      (''OMRS_MODULE_WEB_ADMIN'', ''true''),
      (''OMRS_DB_PORT'', str_nat (mysql_port s)),
      (''OMRS_DB_DRIVER_CLASS'', ''com.mysql.cj.jdbc.Driver'')]"

definition backend_openmrs_container ::
  "cdk_context \<Rightarrow> world \<Rightarrow> stack \<Rightarrow> (string \<times> container_secret) list \<Rightarrow> container_definition" where
  "backend_openmrs_container ctx w s secs =
     \<lparr>container_name = ''openmrsbackend'',
      image_name = ''openmrs/openmrs-reference-application-3-backend:'' @
        py_str (openmrs_reference_application_version ctx),
      user = ''0:0'', essential = True,
      entry_point = [], command = [],
      container_environment = backend_environment w s,
      container_secrets = secs,
      mount_points = [efs_mount_point_for_data_storage, efs_mount_point_for_ssl_folder]\<rparr>"

definition openmrs_fargate_task_definition ::
  "cdk_context \<Rightarrow> world \<Rightarrow> stack \<Rightarrow> (string \<times> container_secret) list \<Rightarrow> task_definition" where
  "openmrs_fargate_task_definition ctx w s secs =
     \<lparr>volumes =
        [(''DataFolderVolume'', efs_volume_configuration_for_data_storage s),
         (''SslFolderVolume'', efs_volume_configuration_for_ssl_folder s)],
      containers =
        [(''GatewayOpenMRSContainer'', gateway_openmrs_container ctx s),
         (''FrontendOpenMRSContainer'', frontend_openmrs_container ctx),
         (''BackendOpenMRSContainer'', backend_openmrs_container ctx w s secs)]\<rparr>"

definition openmrs_application_load_balanced_fargate_service :: "string option \<Rightarrow> fargate_service" where
  "openmrs_application_load_balanced_fargate_service cert =
     \<lparr>service_certificate = cert, service_cluster = ''ecs-cluster'',
      service_task_definition = ''OpenMRSFargateTaskDefinition'',
      target_protocol = ''HTTPS''\<rparr>"

definition create_openmrs_service :: "cdk_context \<Rightarrow> world \<Rightarrow> stack \<Rightarrow> py_error + stack" where
  "create_openmrs_service ctx w s0 =
     (let s = (if truthy (certificate_arn ctx) then certificate_update (\<lambda>c. Some ''domainCert'') s0
               else s0)
      in case backend_secrets ctx s of
           Inl e \<Rightarrow> Inl e
         | Inr secs \<Rightarrow>
             (let s1 = add_task_definition ''OpenMRSFargateTaskDefinition''
                         (openmrs_fargate_task_definition ctx w s secs) s
              in if truthy (certificate_arn ctx) \<or> truthy (route53_domain ctx) then
                   (case certificate s1 of
                      None \<Rightarrow> Inl (AttributeError ''certificate'')
                    | Some c \<Rightarrow>
                        Inr (add_dependency ''OpenMRSFargateLBService'' ''OneTimeSSLSetup''
                               (add_service ''OpenMRSFargateLBService''
                                  (openmrs_application_load_balanced_fargate_service (Some c)) s1)))
                 else
                   Inr (add_dependency ''OpenMRSFargateLBService'' ''OneTimeSSLSetup''
                          (add_service ''OpenMRSFargateLBService''
                             (openmrs_application_load_balanced_fargate_service None) s1))))"

text \<open>
  \<^verbatim>\<open>_create_serverless_analytics_environment\<close>, only with
  \<^verbatim>\<open>create_serverless_analytics_environment\<close> equal to \<^verbatim>\<open>"true"\<close>: the task that copies the
  data volume to the export bucket, and the two export functions.
\<close>

definition sync_efs_to_s3_container :: "cdk_context \<Rightarrow> world \<Rightarrow> container_definition" where
  "sync_efs_to_s3_container ctx w =
     \<lparr>container_name = ''openmrs'',
      image_name = ''openmrs/openmrs-reference-application-3-backend:'' @
        py_str (openmrs_reference_application_version ctx),
      user = ''0:0'', essential = True,
      entry_point = [''/bin/sh'', ''-c''],
      command = sync_command_array (export_bucket_efs_name w),
      container_environment = [], container_secrets = [],
      mount_points =
        [\<lparr>container_path = ''/openmrs/data/'', read_only = True,
          source_volume = ''DataFolderVolume''\<rparr>]\<rparr>"

definition sync_efs_to_s3_task :: "cdk_context \<Rightarrow> world \<Rightarrow> stack \<Rightarrow> task_definition" where
  "sync_efs_to_s3_task ctx w s =
     \<lparr>volumes = [(''DataFolderVolume'', efs_volume_configuration_for_data_storage s)],
      containers = [(''AmazonLinuxContainer'', sync_efs_to_s3_container ctx w)]\<rparr>"

definition create_serverless_analytics_environment_method ::
  "cdk_context \<Rightarrow> world \<Rightarrow> stack \<Rightarrow> stack" where
  "create_serverless_analytics_environment_method ctx w s =
     (if create_serverless_analytics_environment ctx = Some ''true'' then
        (let s1 = add_task_definition ''SyncEFStoS3Task'' (sync_efs_to_s3_task ctx w s) s;
             s2 = add_function ''EFStoS3ExportLambda''
                    (python_lambda ''lambda_functions.sync_efs_to_s3'' (Some (Minutes 10)) False) s1;
             s3 = add_environment ''EFStoS3ExportLambda'' ''ECS_CLUSTER'' (ClusterArn ''ecs-cluster'') s2;
             s4 = add_environment ''EFStoS3ExportLambda'' ''TASK_DEFINITION''
                    (TaskDefinitionArn ''SyncEFStoS3Task'') s3;
             s5 = add_environment ''EFStoS3ExportLambda'' ''SUBNETS'' (Str (private_subnet_id_string w)) s4;
             s6 = add_environment ''EFStoS3ExportLambda'' ''SECURITY_GROUPS''
                    (SecurityGroupId ''EFSOnlySecurityGroup'') s5;
             s7 = grant_run ''SyncEFStoS3Task'' ''EFStoS3ExportLambda'' s6
         in add_function ''RDStoS3ExportLambda''
              (python_lambda ''lambda_functions.export_from_rds_to_s3'' (Some (Minutes 10)) False) s7)
      else s)"

text \<open>
  \<^verbatim>\<open>OpenmrsEcsStack.__init__\<close>: the methods in the order of the source. A method that raises
  ends the construction.
\<close>

definition openmrs_ecs_stack :: "cdk_context \<Rightarrow> world \<Rightarrow> py_error + stack" where
  "openmrs_ecs_stack ctx w =
     (let s1 = create_and_configure_dns_and_certificates ctx initial_stack;
          s2 = configure_ses_method ctx s1;
          s3 = create_waf s2;
          s4 = create_password s3;
          s5 = create_db_instance s4;
          s6 = create_efs_volume s5;
          s7 = create_ecs_cluster s6;
          s8 = create_and_maintain_tls_materials ctx w s7;
          s9 = perpare_data_efs_for_openmrs_service ctx w s8
      in case create_openmrs_service ctx w s9 of
           Inl e \<Rightarrow> Inl e
         | Inr s10 \<Rightarrow> Inr (create_serverless_analytics_environment_method ctx w s10))"

section \<open>What the declarations mean at deployment\<close>

text \<open>
  The services that deploy and run the stack are not part of the repository. This section
  states, from their documentation, the part of their behaviour the properties below are
  about.
\<close>

subsection \<open>Order of deployment\<close>

text \<open>
  The deployment creates the constructs in some order; a construct is created only after
  everything it depends on. A trigger function is invoked when it is created, and its
  creation ends when the invocation has returned. \<open>deployment_order deps order\<close>: the
  constructs of \<open>order\<close> can be created in that order.
\<close>

definition position :: "'a \<Rightarrow> 'a list \<Rightarrow> nat" where
  "position x xs = length (takeWhile (\<lambda>y. y \<noteq> x) xs)"

definition deployment_order :: "(string \<times> string) list \<Rightarrow> string list \<Rightarrow> bool" where
  "deployment_order deps order =
     (distinct order \<and>
      list_all (\<lambda>(a, b). a \<in> set order \<longrightarrow> b \<in> set order \<and> position b order < position a order) deps)"

definition created_before :: "string list \<Rightarrow> string \<Rightarrow> string \<Rightarrow> bool" where
  "created_before order x y =
     (x \<in> set order \<and> y \<in> set order \<and> position x order < position y order)"

text \<open>Everything a construct waits for, directly or through other constructs.\<close>

fun requires_within :: "nat \<Rightarrow> (string \<times> string) list \<Rightarrow> string list \<Rightarrow> string list" where
  "requires_within 0 deps xs = xs"
| "requires_within (Suc n) deps xs =
     requires_within n deps (remdups (xs @ map snd (filter (\<lambda>(a, b). a \<in> set xs) deps)))"

definition requirements :: "(string \<times> string) list \<Rightarrow> string \<Rightarrow> string list" where
  "requirements deps a = requires_within (length deps) deps [a]"

subsection \<open>Invocation of a function\<close>

text \<open>
  The Lambda service stops an invocation that runs longer than the timeout of the function
  (three seconds when none is declared) and reports an error. Otherwise the caller gets what
  the handler returns. What the handler does is not modelled: an \<open>execution\<close> is the time it
  needs and the result it would give.
\<close>

datatype outcome = Succeeded | Failed

record execution =
  seconds_needed :: nat
  handler_result :: outcome

fun seconds :: "duration \<Rightarrow> nat" where
  "seconds (Minutes n) = 60 * n"
| "seconds (Days n) = 86400 * n"

definition timeout_seconds :: "lambda_function \<Rightarrow> nat" where
  "timeout_seconds f = (case timeout f of None \<Rightarrow> 3 | Some d \<Rightarrow> seconds d)"

definition invoke :: "lambda_function \<Rightarrow> execution \<Rightarrow> outcome" where
  "invoke f e = (if timeout_seconds f < seconds_needed e then Failed else handler_result e)"

definition trigger_functions :: "stack \<Rightarrow> (string \<times> lambda_function) list" where
  "trigger_functions s = filter (\<lambda>(name, f). is_trigger f) (lambda_functions s)"

subsection \<open>Secrets\<close>

text \<open>
  A generated secret is the JSON object of its template with the generated password added
  under \<^verbatim>\<open>generate_string_key\<close>. The templates of the source are flat objects of strings;
  \<open>json_object\<close> reads those and nothing else.
\<close>

datatype json_token = LBrace | RBrace | Colon | Comma | JString string | Unreadable

fun json_lex :: "bool \<Rightarrow> string \<Rightarrow> string \<Rightarrow> json_token list" where
  "json_lex in_string cur [] = (if in_string then [Unreadable] else [])"
| "json_lex in_string cur (c # cs) =
     (if in_string then
        (if c = CHR 0x22 then JString cur # json_lex False [] cs
         else if c = CHR 0x5C then [Unreadable]
         else json_lex True (cur @ [c]) cs)
      else if c = CHR '' '' then json_lex False [] cs
      else if c = CHR 0x22 then json_lex True [] cs
      else if c = CHR ''{'' then LBrace # json_lex False [] cs
      else if c = CHR ''}'' then RBrace # json_lex False [] cs
      else if c = CHR '':'' then Colon # json_lex False [] cs
      else if c = CHR '','' then Comma # json_lex False [] cs
      else [Unreadable])"

fun json_members :: "json_token list \<Rightarrow> (string \<times> string) list option" where
  "json_members [JString k, Colon, JString v, RBrace] = Some [(k, v)]"
| "json_members (JString k # Colon # JString v # Comma # ts) =
     (case json_members ts of None \<Rightarrow> None | Some kvs \<Rightarrow> Some ((k, v) # kvs))"
| "json_members ts = None"

definition json_object :: "string \<Rightarrow> (string \<times> string) list option" where
  "json_object s =
     (case json_lex False [] s of
        [] \<Rightarrow> None
      | t # ts \<Rightarrow>
          if t = LBrace then (if ts = [RBrace] then Some [] else json_members ts) else None)"

datatype secret_value = Literal string | Generated bool bool | Reference token

definition secret_fields :: "secret \<Rightarrow> (string \<times> secret_value) list option" where
  "secret_fields x =
     (case x of
        GenerateSecretString no_punctuation with_space template key \<Rightarrow>
          (case json_object template of
             None \<Rightarrow> None
           | Some kvs \<Rightarrow>
               Some (map (\<lambda>(k, v). (k, Literal v)) (filter (\<lambda>(k, v). k \<noteq> key) kvs) @
                     [(key, Generated no_punctuation with_space)]))
      | SecretObjectValue kvs \<Rightarrow> Some (map (\<lambda>(k, t). (k, Reference t)) kvs)
      | PlainSecret \<Rightarrow> None)"

subsection \<open>Files of a volume in a container\<close>

text \<open>
  A path of a container lies on a volume when a mount point of the container is a prefix of
  it; the file is then the rest of the path on the file system of that volume.
\<close>

definition mount_of :: "mount_point list \<Rightarrow> path \<Rightarrow> mount_point option" where
  "mount_of ms p = find (\<lambda>m. startswith p (container_path m)) ms"

definition volume_file :: "task_definition \<Rightarrow> container_definition \<Rightarrow> path \<Rightarrow> (string \<times> string) option" where
  "volume_file td c p =
     (case mount_of (mount_points c) p of
        None \<Rightarrow> None
      | Some m \<Rightarrow>
          (case map_of (volumes td) (source_volume m) of
             None \<Rightarrow> None
           | Some v \<Rightarrow> Some (file_system_id v, drop (length (container_path m)) p)))"

text \<open>
  Whatever a process in a container does to files comes down to writing, removing and
  renaming. On a mount point declared \<^verbatim>\<open>read_only\<close> each of them is refused and leaves the
  files as they are.
\<close>

datatype file_op = WriteFile path file_content | RemoveFile path | MoveFile path path

definition writable :: "mount_point list \<Rightarrow> path \<Rightarrow> bool" where
  "writable ms p = (case mount_of ms p of None \<Rightarrow> True | Some m \<Rightarrow> \<not> read_only m)"

fun apply_op :: "mount_point list \<Rightarrow> file_op \<Rightarrow> files \<Rightarrow> files" where
  "apply_op ms (WriteFile p c) fs = (if writable ms p then fs(p \<mapsto> c) else fs)"
| "apply_op ms (RemoveFile p) fs = (if writable ms p then fs(p := None) else fs)"
| "apply_op ms (MoveFile a b) fs =
     (if writable ms a \<and> writable ms b then
        (case fs a of None \<Rightarrow> fs | Some c \<Rightarrow> (fs(a := None))(b \<mapsto> c))
      else fs)"

fun apply_ops :: "mount_point list \<Rightarrow> file_op list \<Rightarrow> files \<Rightarrow> files" where
  "apply_ops ms [] fs = fs"
| "apply_ops ms (x # xs) fs = apply_ops ms xs (apply_op ms x fs)"

definition files_under :: "path \<Rightarrow> files \<Rightarrow> files" where
  "files_under dir fs = (\<lambda>p. if startswith p dir then fs p else None)"

subsection \<open>Configuration read from the strings\<close>

text \<open>
  \<^verbatim>\<open>sed '/REGEX/a\TEXT' -i FILE\<close> appends the line \<^verbatim>\<open>TEXT\<close> after every line of the file that
  matches; a line \<^verbatim>\<open>NAME VALUE;\<close> of the nginx configuration sets a directive.
\<close>

definition append_text :: "string \<Rightarrow> string option" where
  "append_text script =
     (case script of
        [] \<Rightarrow> None
      | c # rest \<Rightarrow>
          if c = CHR ''/'' then
            (case dropWhile (\<lambda>x. x \<noteq> CHR ''/'') rest of
               s # a # b # text \<Rightarrow> if a = CHR ''a'' \<and> b = CHR 0x5C then Some text else None
             | _ \<Rightarrow> None)
          else None)"

definition sed_append :: "string list \<Rightarrow> string option" where
  "sed_append ws =
     (case ws of
        [cmd, script, opt, file] \<Rightarrow>
          if cmd = ''sed'' \<and> opt = ''-i'' then append_text script else None
      | _ \<Rightarrow> None)"

definition nginx_directive :: "string \<Rightarrow> (string \<times> string) option" where
  "nginx_directive line =
     (case shell_words line of
        [name, v] \<Rightarrow> if v \<noteq> [] \<and> last v = CHR '';'' then Some (name, butlast v) else None
      | _ \<Rightarrow> None)"

definition appended_directives :: "string list \<Rightarrow> (string \<times> string) list" where
  "appended_directives command_array =
     concat (map (\<lambda>script.
       List.map_filter
         (\<lambda>ws. case sed_append ws of None \<Rightarrow> None | Some text \<Rightarrow> nginx_directive text)
         (shell_commands script)) command_array)"

text \<open>The parameters of a URL, after the question mark, and the trust store among them.\<close>

definition query_string :: "string \<Rightarrow> string" where
  "query_string url = drop 1 (dropWhile (\<lambda>c. c \<noteq> CHR ''?'') url)"

definition query_parameters :: "string \<Rightarrow> (string \<times> string) list" where
  "query_parameters q =
     map (\<lambda>kv. (takeWhile (\<lambda>c. c \<noteq> CHR ''='') kv, drop 1 (dropWhile (\<lambda>c. c \<noteq> CHR ''='') kv)))
       (split_on CHR ''&'' q)"

definition url_parameters :: "string \<Rightarrow> (string \<times> string) list" where
  "url_parameters url = query_parameters (query_string url)"

definition trust_store_path :: "string \<Rightarrow> path option" where
  "trust_store_path url =
     (case map_of (url_parameters url) ''trustCertificateKeyStoreUrl'' of
        None \<Rightarrow> None
      | Some v \<Rightarrow> if startswith v ''file:'' then Some (drop 5 v) else None)"

text \<open>A string the shell takes as it is: no blank and no quote.\<close>

definition plain :: "string \<Rightarrow> bool" where
  "plain s = list_all (\<lambda>c. c \<noteq> CHR '' '' \<and> c \<noteq> CHR 0x27) s"

section \<open>Names for what the stack holds\<close>

text \<open>
  The declarations as they stand in the stack once every method has run, named so that the
  results below can refer to them, and two deployments to evaluate the results on.
\<close>

definition run_task_lambda :: "string \<Rightarrow> string \<Rightarrow> world \<Rightarrow> bool \<Rightarrow> lambda_function" where
  "run_task_lambda h task w trig =
     \<lparr>runtime = ''PYTHON_3_13'', code = ''lambda'', architecture = ''ARM_64'',
      handler = h, timeout = Some (Minutes 10),
      environment =
        [(''ECS_CLUSTER'', ClusterArn ''ecs-cluster''),
         (''TASK_DEFINITION'', TaskDefinitionArn task),
         (''SUBNETS'', Str (private_subnet_id_string w)),
         (''SECURITY_GROUPS'', SecurityGroupId ''EFSOnlySecurityGroup'')],
      role_policy = [run_task_statement], is_trigger = trig\<rparr>"

definition ses_functions :: "cdk_context \<Rightarrow> (string \<times> lambda_function) list" where
  "ses_functions ctx =
     (if truthy (route53_domain ctx) \<and> configure_ses ctx = Some ''true'' then
        [(''SMTPSetup'',
          (python_lambda ''lambda_functions.generate_smtp_credential'' (Some (Minutes 10)) True)
            \<lparr>environment := [(''SECRET_ACCESS_KEY'', SecretArn ''secret-access-key''),
                             (''SMTP_PASSWORD'', SecretArn ''smtp-secret'')]\<rparr>)] @
        (if truthy (email_forwarding_address ctx) then
           [(''EmailForwardingLambda'',
             (python_lambda ''lambda_functions.send_email'' None False)
               \<lparr>environment :=
                  [(''FORWARD_TO'', Str (py_str (email_forwarding_address ctx))),
                   (''SOURCE_ARN'', EmailIdentityArn ''SESIdentity''),
                   (''SOURCE_NAME'', Str (''help@'' @ py_str (route53_domain ctx))),
                   (''BUCKET_NAME'', BucketName ''EmailStorageBucket'')]\<rparr>)]
         else []) @
        [(''MakeRuleSetActive'',
          (python_lambda ''lambda_functions.make_ruleset_active'' (Some (Minutes 10)) True)
            \<lparr>environment := [(''RULE_SET_NAME'', ReceiptRuleSetName ''RuleSet'')],
             role_policy := [\<lparr>actions = [''ses:SetActiveReceiptRuleSet''], resources = [''*''],
                               conditions = []\<rparr>]\<rparr>)]
      else [])"

definition analytics_functions :: "cdk_context \<Rightarrow> world \<Rightarrow> (string \<times> lambda_function) list" where
  "analytics_functions ctx w =
     (if create_serverless_analytics_environment ctx = Some ''true'' then
        [(''EFStoS3ExportLambda'',
          (run_task_lambda ''lambda_functions.sync_efs_to_s3'' ''SyncEFStoS3Task'' w False)
            \<lparr>role_policy := []\<rparr>),
         (''RDStoS3ExportLambda'',
          python_lambda ''lambda_functions.export_from_rds_to_s3'' (Some (Minutes 10)) False)]
      else [])"

definition with_certificate :: "cdk_context \<Rightarrow> stack \<Rightarrow> stack" where
  "with_certificate ctx s =
     (if truthy (certificate_arn ctx) then certificate_update (\<lambda>c. Some ''domainCert'') s else s)"

definition before_service :: "cdk_context \<Rightarrow> world \<Rightarrow> stack" where
  "before_service ctx w =
     perpare_data_efs_for_openmrs_service ctx w
       (create_and_maintain_tls_materials ctx w
          (create_ecs_cluster (create_efs_volume (create_db_instance (create_password
             (create_waf (configure_ses_method ctx
                (create_and_configure_dns_and_certificates ctx initial_stack))))))))"

definition ses_secrets :: "cdk_context \<Rightarrow> (string \<times> secret) list" where
  "ses_secrets ctx =
     (if truthy (route53_domain ctx) \<and> configure_ses ctx = Some ''true'' then
        [(''smtp-secret'', PlainSecret),
         (''secret-access-key'', SecretObjectValue [(''password'', SecretAccessKey ''SmtpAccessKey'')])]
      else [])"

definition data_file_system :: efs_volume_configuration where
  "data_file_system = \<lparr>file_system_id = ''EfsFileSystemForFileStorage'', transit_encryption = ''ENABLED''\<rparr>"

definition ssl_file_system :: efs_volume_configuration where
  "ssl_file_system = \<lparr>file_system_id = ''EfsFileSystemForSslFolder'', transit_encryption = ''ENABLED''\<rparr>"

definition default_context :: cdk_context where
  "default_context =
     \<lparr>certificate_arn = None, route53_domain = None, configure_ses = None,
      email_forwarding_address = None, create_serverless_analytics_environment = None,
      openmrs_reference_application_version = Some ''3.0.0''\<rparr>"

definition full_context :: cdk_context where
  "full_context =
     \<lparr>certificate_arn = None, route53_domain = Some ''example.org'',
      configure_ses = Some ''true'', email_forwarding_address = Some ''ops@example.org'',
      create_serverless_analytics_environment = Some ''true'',
      openmrs_reference_application_version = Some ''3.0.0''\<rparr>"

definition example_world :: world where
  "example_world =
     \<lparr>private_subnet_ids = [''subnet-0a'', ''subnet-0b''],
      cluster_endpoint_hostname = ''db.cluster.example.internal'',
      unique_id = ''0123456789abcdef01'', account = ''123456789012'', region = ''us-east-1''\<rparr>"

definition default_stack :: stack where
  "default_stack = projr (openmrs_ecs_stack default_context example_world)"

definition full_stack :: stack where
  "full_stack = projr (openmrs_ecs_stack full_context example_world)"

definition service_first_order :: "string list" where
  "service_first_order =
     [''Load-Balancer'', ''web-acl'', ''DatabaseCluster'', ''ecs-cluster'', ''OneTimeSSLSetup'',
      ''OpenMRSFargateLBService'', ''OneTimeEFSDataSetup'']"

section \<open>Results\<close>

subsection \<open>Evaluating the scripts\<close>

lemma tls_script_eq:
  "tls_script =
     [Other [''apk'', ''add'', ''openssl'', ''--no-check-certificate'', ''--no-cache''],
      Cd ''/etc/ssl/certs/'',
      Genrsa 2048 ''/etc/ssl/certs/selfsigned.key.pem.tmp'',
      Req True True 365 ''/etc/ssl/certs/selfsigned.key.pem.tmp''
          ''/etc/ssl/certs/selfsigned.cert.pem.tmp'' ''/CN=localhost'',
      Curl True ''/etc/ssl/certs/mysqltmp.pem''
          ''https://truststore.pki.rds.amazonaws.com/global/global-bundle.pem'',
      Mv ''selfsigned.cert.pem.tmp'' ''cert.pem'',
      Mv ''selfsigned.key.pem.tmp'' ''privkey.pem'',
      Mv ''mysqltmp.pem'' ''mysql.pem'']"
  by code_simp

lemma tls_actions_eq:
  "tls_actions cwd =
     [Truncate ''/etc/ssl/certs/selfsigned.key.pem.tmp'',
      PutKey ''/etc/ssl/certs/selfsigned.key.pem.tmp'' 2048,
      Truncate ''/etc/ssl/certs/selfsigned.cert.pem.tmp'',
      PutCert ''/etc/ssl/certs/selfsigned.cert.pem.tmp'' ''/etc/ssl/certs/selfsigned.key.pem.tmp''
        True 365 ''/CN=localhost'',
      Truncate ''/etc/ssl/certs/mysqltmp.pem'',
      PutBody ''/etc/ssl/certs/mysqltmp.pem'' rds_bundle_url,
      Rename ''/etc/ssl/certs/selfsigned.cert.pem.tmp'' ''/etc/ssl/certs/cert.pem'',
      Rename ''/etc/ssl/certs/selfsigned.key.pem.tmp'' ''/etc/ssl/certs/privkey.pem'',
      Rename ''/etc/ssl/certs/mysqltmp.pem'' ''/etc/ssl/certs/mysql.pem'']"
  by (simp add: tls_actions_def tls_script_eq resolve_def rds_bundle_url_def)

subsection \<open>Evaluating the stack\<close>

lemmas table_defs = add_secret_def add_function_def update_function_def add_environment_def
  add_to_role_policy_def grant_run_def add_rule_def add_task_definition_def add_service_def
  add_dependency_def

lemmas small_methods = create_and_configure_dns_and_certificates_def create_waf_def
  create_password_def create_db_instance_def create_efs_volume_def create_ecs_cluster_def

lemma update_named_append:
  "update_named name g (xs @ ys) = update_named name g xs @ update_named name g ys"
  by (induction xs) auto

lemma update_named_fresh: "name \<notin> fst ` set xs \<Longrightarrow> update_named name g xs = xs"
  by (induction xs) auto

lemma ses_function_names:
  "fst ` set (ses_functions ctx) \<subseteq> {''SMTPSetup'', ''EmailForwardingLambda'', ''MakeRuleSetActive''}"
  by (auto simp add: ses_functions_def)

subsection \<open>configure_ses\<close>

lemma ses_initial:
  "lambda_functions s = [] \<Longrightarrow> lambda_functions (configure_ses_method ctx s) = ses_functions ctx"
  by (simp add: configure_ses_method_def ses_functions_def table_defs Let_def python_lambda_def)

lemma ses_other:
  "dependencies (configure_ses_method ctx s) = dependencies s"
  "event_rules (configure_ses_method ctx s) = event_rules s"
  "task_definitions (configure_ses_method ctx s) = task_definitions s"
  "services (configure_ses_method ctx s) = services s"
  "run_grants (configure_ses_method ctx s) = run_grants s"
  "certificate (configure_ses_method ctx s) = certificate s"
  "number_of_days_to_regenerate_ssl_materials (configure_ses_method ctx s) =
     number_of_days_to_regenerate_ssl_materials s"
  "mysql_port (configure_ses_method ctx s) = mysql_port s"
  "gateway_container_port (configure_ses_method ctx s) = gateway_container_port s"
  "efs_volume_configuration_for_data_storage (configure_ses_method ctx s) =
     efs_volume_configuration_for_data_storage s"
  "efs_volume_configuration_for_ssl_folder (configure_ses_method ctx s) =
     efs_volume_configuration_for_ssl_folder s"
  "secrets (configure_ses_method ctx s) =
     secrets s @
     (if truthy (route53_domain ctx) \<and> configure_ses ctx = Some ''true'' then
        [(''smtp-secret'', PlainSecret),
         (''secret-access-key'', SecretObjectValue [(''password'', SecretAccessKey ''SmtpAccessKey'')])]
      else [])"
  "mail_user (configure_ses_method ctx s) =
     (if truthy (route53_domain ctx) \<and> configure_ses ctx = Some ''true'' then Some ''mail_user''
      else mail_user s)"
  "smtp_password (configure_ses_method ctx s) =
     (if truthy (route53_domain ctx) \<and> configure_ses ctx = Some ''true'' then Some ''smtp-secret''
      else smtp_password s)"
  by (simp_all add: configure_ses_method_def table_defs Let_def)


subsection \<open>tls\<close>

lemma tls_functions:
  "''MaintainSSLMaterialsLambda'' \<notin> fst ` set (lambda_functions s) \<Longrightarrow>
   ''OneTimeSSLSetup'' \<notin> fst ` set (lambda_functions s) \<Longrightarrow>
   lambda_functions (create_and_maintain_tls_materials ctx w s) =
     lambda_functions s @
       [(''MaintainSSLMaterialsLambda'',
         run_task_lambda ''lambda_functions.generate_ssl_materials''
           ''CreateSSLMaterialsTaskDefinition'' w False),
        (''OneTimeSSLSetup'',
         run_task_lambda ''lambda_functions.generate_ssl_materials''
           ''CreateSSLMaterialsTaskDefinition'' w True)]"
  by (simp add: create_and_maintain_tls_materials_def table_defs Let_def python_lambda_def
        update_named_append update_named_fresh run_task_lambda_def)

lemma tls_other:
  "dependencies (create_and_maintain_tls_materials ctx w s) = dependencies s"
  "secrets (create_and_maintain_tls_materials ctx w s) = secrets s"
  "services (create_and_maintain_tls_materials ctx w s) = services s"
  "certificate (create_and_maintain_tls_materials ctx w s) = certificate s"
  "mail_user (create_and_maintain_tls_materials ctx w s) = mail_user s"
  "smtp_password (create_and_maintain_tls_materials ctx w s) = smtp_password s"
  "number_of_days_to_regenerate_ssl_materials (create_and_maintain_tls_materials ctx w s) =
     number_of_days_to_regenerate_ssl_materials s"
  "mysql_port (create_and_maintain_tls_materials ctx w s) = mysql_port s"
  "gateway_container_port (create_and_maintain_tls_materials ctx w s) = gateway_container_port s"
  "efs_volume_configuration_for_data_storage (create_and_maintain_tls_materials ctx w s) =
     efs_volume_configuration_for_data_storage s"
  "efs_volume_configuration_for_ssl_folder (create_and_maintain_tls_materials ctx w s) =
     efs_volume_configuration_for_ssl_folder s"
  "event_rules (create_and_maintain_tls_materials ctx w s) =
     event_rules s @
       [(''RegularScheduleforSSLMaintenance'',
         \<lparr>rule_schedule = Rate (Days (number_of_days_to_regenerate_ssl_materials s)),
          targets = [''MaintainSSLMaterialsLambda'']\<rparr>)]"
  "task_definitions (create_and_maintain_tls_materials ctx w s) =
     task_definitions s @ [(''CreateSSLMaterialsTaskDefinition'', create_ssl_materials_task ctx s)]"
  "run_grants (create_and_maintain_tls_materials ctx w s) =
     run_grants s @
       [(''CreateSSLMaterialsTaskDefinition'', ''MaintainSSLMaterialsLambda''),
        (''CreateSSLMaterialsTaskDefinition'', ''OneTimeSSLSetup'')]"
  by (simp_all add: create_and_maintain_tls_materials_def table_defs Let_def)

subsection \<open>seed\<close>

lemma seed_functions:
  "''OneTimeEFSDataSetup'' \<notin> fst ` set (lambda_functions s) \<Longrightarrow>
   lambda_functions (perpare_data_efs_for_openmrs_service ctx w s) =
     lambda_functions s @
       [(''OneTimeEFSDataSetup'',
         run_task_lambda ''lambda_functions.initial_openmrs_data_sync_to_efs''
           ''WriteOpenMRSDatatoDataEFSTask'' w True)]"
  by (simp add: perpare_data_efs_for_openmrs_service_def table_defs Let_def python_lambda_def
        update_named_append update_named_fresh run_task_lambda_def)

lemma seed_other:
  "dependencies (perpare_data_efs_for_openmrs_service ctx w s) = dependencies s"
  "secrets (perpare_data_efs_for_openmrs_service ctx w s) = secrets s"
  "services (perpare_data_efs_for_openmrs_service ctx w s) = services s"
  "certificate (perpare_data_efs_for_openmrs_service ctx w s) = certificate s"
  "mail_user (perpare_data_efs_for_openmrs_service ctx w s) = mail_user s"
  "smtp_password (perpare_data_efs_for_openmrs_service ctx w s) = smtp_password s"
  "event_rules (perpare_data_efs_for_openmrs_service ctx w s) = event_rules s"
  "number_of_days_to_regenerate_ssl_materials (perpare_data_efs_for_openmrs_service ctx w s) =
     number_of_days_to_regenerate_ssl_materials s"
  "mysql_port (perpare_data_efs_for_openmrs_service ctx w s) = mysql_port s"
  "gateway_container_port (perpare_data_efs_for_openmrs_service ctx w s) = gateway_container_port s"
  "efs_volume_configuration_for_data_storage (perpare_data_efs_for_openmrs_service ctx w s) =
     efs_volume_configuration_for_data_storage s"
  "efs_volume_configuration_for_ssl_folder (perpare_data_efs_for_openmrs_service ctx w s) =
     efs_volume_configuration_for_ssl_folder s"
  "task_definitions (perpare_data_efs_for_openmrs_service ctx w s) =
     task_definitions s @
       [(''WriteOpenMRSDatatoDataEFSTask'', write_openmrs_data_to_data_efs_task ctx s)]"
  "run_grants (perpare_data_efs_for_openmrs_service ctx w s) =
     run_grants s @ [(''WriteOpenMRSDatatoDataEFSTask'', ''OneTimeEFSDataSetup'')]"
  by (simp_all add: perpare_data_efs_for_openmrs_service_def table_defs Let_def)

subsection \<open>analytics\<close>

lemma analytics_functions:
  "''EFStoS3ExportLambda'' \<notin> fst ` set (lambda_functions s) \<Longrightarrow>
   lambda_functions (create_serverless_analytics_environment_method ctx w s) =
     lambda_functions s @ analytics_functions ctx w"
  by (simp add: create_serverless_analytics_environment_method_def table_defs Let_def
        python_lambda_def update_named_append update_named_fresh run_task_lambda_def
        analytics_functions_def)

lemma analytics_other:
  "dependencies (create_serverless_analytics_environment_method ctx w s) = dependencies s"
  "secrets (create_serverless_analytics_environment_method ctx w s) = secrets s"
  "services (create_serverless_analytics_environment_method ctx w s) = services s"
  "event_rules (create_serverless_analytics_environment_method ctx w s) = event_rules s"
  "task_definitions (create_serverless_analytics_environment_method ctx w s) =
     task_definitions s @
       (if create_serverless_analytics_environment ctx = Some ''true''
        then [(''SyncEFStoS3Task'', sync_efs_to_s3_task ctx w s)] else [])"
  "run_grants (create_serverless_analytics_environment_method ctx w s) =
     run_grants s @
       (if create_serverless_analytics_environment ctx = Some ''true''
        then [(''SyncEFStoS3Task'', ''EFStoS3ExportLambda'')] else [])"
  "efs_volume_configuration_for_data_storage (create_serverless_analytics_environment_method ctx w s) =
     efs_volume_configuration_for_data_storage s"
  by (simp_all add: create_serverless_analytics_environment_method_def table_defs Let_def)


subsection \<open>service\<close>

lemma service_shape:
  assumes "create_openmrs_service ctx w s = Inr s'"
  shows "\<exists>secs cert.
           backend_secrets ctx (with_certificate ctx s) = Inr secs \<and>
           s' = add_dependency ''OpenMRSFargateLBService'' ''OneTimeSSLSetup''
                  (add_service ''OpenMRSFargateLBService''
                     (openmrs_application_load_balanced_fargate_service cert)
                     (add_task_definition ''OpenMRSFargateTaskDefinition''
                        (openmrs_fargate_task_definition ctx w (with_certificate ctx s) secs)
                        (with_certificate ctx s)))"
proof (cases "backend_secrets ctx (with_certificate ctx s)")
  case (Inl e)
  with assms show ?thesis
    by (simp add: create_openmrs_service_def with_certificate_def Let_def)
next
  case (Inr secs)
  with assms show ?thesis
    unfolding create_openmrs_service_def with_certificate_def [symmetric] Let_def
    by (simp split: if_splits option.splits) blast+
qed

lemma with_certificate_fields:
  "dependencies (with_certificate ctx s) = dependencies s"
  "lambda_functions (with_certificate ctx s) = lambda_functions s"
  "secrets (with_certificate ctx s) = secrets s"
  "event_rules (with_certificate ctx s) = event_rules s"
  "task_definitions (with_certificate ctx s) = task_definitions s"
  "services (with_certificate ctx s) = services s"
  "mail_user (with_certificate ctx s) = mail_user s"
  "smtp_password (with_certificate ctx s) = smtp_password s"
  "mysql_port (with_certificate ctx s) = mysql_port s"
  "gateway_container_port (with_certificate ctx s) = gateway_container_port s"
  "efs_volume_configuration_for_data_storage (with_certificate ctx s) =
     efs_volume_configuration_for_data_storage s"
  "efs_volume_configuration_for_ssl_folder (with_certificate ctx s) =
     efs_volume_configuration_for_ssl_folder s"
  by (simp_all add: with_certificate_def)

subsection \<open>before the service\<close>

lemma before_service_fields:
  "dependencies (before_service ctx w) =
     [(''web-acl'', ''Load-Balancer''), (''ecs-cluster'', ''DatabaseCluster'')]"
  "secrets (before_service ctx w) =
     ses_secrets ctx @
       [(''Password'', GenerateSecretString True False ''{\"username\": \"admin\"}'' ''password''),
        (''db-secret'', GenerateSecretString True False ''{\"username\": \"dbadmin\"}'' ''password'')]"
  "services (before_service ctx w) = []"
  "event_rules (before_service ctx w) =
     [(''RegularScheduleforSSLMaintenance'',
       \<lparr>rule_schedule = Rate (Days 2), targets = [''MaintainSSLMaterialsLambda'']\<rparr>)]"
  "mysql_port (before_service ctx w) = 3306"
  "gateway_container_port (before_service ctx w) = 8082"
  "efs_volume_configuration_for_data_storage (before_service ctx w) = data_file_system"
  "efs_volume_configuration_for_ssl_folder (before_service ctx w) = ssl_file_system"
  "mail_user (before_service ctx w) =
     (if truthy (route53_domain ctx) \<and> configure_ses ctx = Some ''true'' then Some ''mail_user'' else None)"
  "smtp_password (before_service ctx w) =
     (if truthy (route53_domain ctx) \<and> configure_ses ctx = Some ''true'' then Some ''smtp-secret'' else None)"
  "certificate (before_service ctx w) =
     (if truthy (route53_domain ctx) then Some ''Certificate'' else None)"
  by (simp_all add: before_service_def seed_other tls_other ses_other small_methods
        add_dependency_def add_secret_def initial_stack_def ses_secrets_def
        data_file_system_def ssl_file_system_def)

lemma before_service_tasks:
  "task_definitions (before_service ctx w) =
     [(''CreateSSLMaterialsTaskDefinition'',
       \<lparr>volumes = [(''SslFolderVolume'', ssl_file_system)],
        containers = [(''SSLMaintenanceContainer'', ssl_maintenance_container ctx)]\<rparr>),
      (''WriteOpenMRSDatatoDataEFSTask'',
       \<lparr>volumes = [(''TemporaryDataVolume'', data_file_system)],
        containers = [(''OneTimePrepareEFSContainer'', initial_data_sync_to_efs_container ctx)]\<rparr>)]"
  by (simp add: before_service_def seed_other tls_other ses_other small_methods
        add_dependency_def add_secret_def initial_stack_def
        create_ssl_materials_task_def write_openmrs_data_to_data_efs_task_def
        data_file_system_def ssl_file_system_def)

lemma before_service_functions:
  "lambda_functions (before_service ctx w) =
     ses_functions ctx @
       [(''MaintainSSLMaterialsLambda'',
         run_task_lambda ''lambda_functions.generate_ssl_materials''
           ''CreateSSLMaterialsTaskDefinition'' w False),
        (''OneTimeSSLSetup'',
         run_task_lambda ''lambda_functions.generate_ssl_materials''
           ''CreateSSLMaterialsTaskDefinition'' w True),
        (''OneTimeEFSDataSetup'',
         run_task_lambda ''lambda_functions.initial_openmrs_data_sync_to_efs''
           ''WriteOpenMRSDatatoDataEFSTask'' w True)]"
proof -
  let ?s2 = "configure_ses_method ctx (create_and_configure_dns_and_certificates ctx initial_stack)"
  let ?s7 = "create_ecs_cluster (create_efs_volume (create_db_instance (create_password
               (create_waf ?s2))))"
  have f2: "lambda_functions ?s2 = ses_functions ctx"
    by (rule ses_initial) (simp add: small_methods initial_stack_def)
  have f7: "lambda_functions ?s7 = ses_functions ctx"
    by (simp add: create_waf_def create_password_def create_db_instance_def create_efs_volume_def
          create_ecs_cluster_def add_dependency_def add_secret_def f2)
  have names: "''MaintainSSLMaterialsLambda'' \<notin> fst ` set (ses_functions ctx)"
    "''OneTimeSSLSetup'' \<notin> fst ` set (ses_functions ctx)"
    "''OneTimeEFSDataSetup'' \<notin> fst ` set (ses_functions ctx)"
    using ses_function_names [of ctx] by auto
  have f8: "lambda_functions (create_and_maintain_tls_materials ctx w ?s7) =
      ses_functions ctx @
       [(''MaintainSSLMaterialsLambda'',
         run_task_lambda ''lambda_functions.generate_ssl_materials''
           ''CreateSSLMaterialsTaskDefinition'' w False),
        (''OneTimeSSLSetup'',
         run_task_lambda ''lambda_functions.generate_ssl_materials''
           ''CreateSSLMaterialsTaskDefinition'' w True)]"
    using names by (simp add: tls_functions f7)
  show ?thesis
    unfolding before_service_def
    using names by (subst seed_functions) (simp_all add: f8)
qed


subsection \<open>the whole stack\<close>

lemma stack_split:
  "openmrs_ecs_stack ctx w = Inr s \<Longrightarrow>
   \<exists>s10. create_openmrs_service ctx w (before_service ctx w) = Inr s10 \<and>
         s = create_serverless_analytics_environment_method ctx w s10"
  by (auto simp add: openmrs_ecs_stack_def before_service_def Let_def split: sum.splits)

lemma service_task_eq:
  "gateway_container_port s = 8082 \<Longrightarrow> mysql_port s = 3306 \<Longrightarrow>
   efs_volume_configuration_for_data_storage s = data_file_system \<Longrightarrow>
   efs_volume_configuration_for_ssl_folder s = ssl_file_system \<Longrightarrow>
   openmrs_fargate_task_definition ctx w s secs =
     \<lparr>volumes = [(''DataFolderVolume'', data_file_system), (''SslFolderVolume'', ssl_file_system)],
      containers =
        [(''GatewayOpenMRSContainer'', gateway_openmrs_container ctx initial_stack),
         (''FrontendOpenMRSContainer'', frontend_openmrs_container ctx),
         (''BackendOpenMRSContainer'', backend_openmrs_container ctx w initial_stack secs)]\<rparr>"
  by (simp add: openmrs_fargate_task_definition_def gateway_openmrs_container_def
        backend_openmrs_container_def backend_environment_def initial_stack_def)

lemma stack_facts:
  assumes "openmrs_ecs_stack ctx w = Inr s"
  shows stack_dependencies:
      "dependencies s =
         [(''web-acl'', ''Load-Balancer''), (''ecs-cluster'', ''DatabaseCluster''),
          (''OpenMRSFargateLBService'', ''OneTimeSSLSetup'')]"
    and stack_rules:
      "event_rules s =
         [(''RegularScheduleforSSLMaintenance'',
           \<lparr>rule_schedule = Rate (Days 2), targets = [''MaintainSSLMaterialsLambda'']\<rparr>)]"
    and stack_secrets:
      "secrets s =
         ses_secrets ctx @
           [(''Password'', GenerateSecretString True False ''{\"username\": \"admin\"}'' ''password''),
            (''db-secret'', GenerateSecretString True False ''{\"username\": \"dbadmin\"}'' ''password'')]"
    and stack_functions:
      "lambda_functions s =
         ses_functions ctx @
           [(''MaintainSSLMaterialsLambda'',
             run_task_lambda ''lambda_functions.generate_ssl_materials''
               ''CreateSSLMaterialsTaskDefinition'' w False),
            (''OneTimeSSLSetup'',
             run_task_lambda ''lambda_functions.generate_ssl_materials''
               ''CreateSSLMaterialsTaskDefinition'' w True),
            (''OneTimeEFSDataSetup'',
             run_task_lambda ''lambda_functions.initial_openmrs_data_sync_to_efs''
               ''WriteOpenMRSDatatoDataEFSTask'' w True)] @
           analytics_functions ctx w"
    and stack_tasks:
      "\<exists>secs. task_definitions s =
         [(''CreateSSLMaterialsTaskDefinition'',
           \<lparr>volumes = [(''SslFolderVolume'', ssl_file_system)],
            containers = [(''SSLMaintenanceContainer'', ssl_maintenance_container ctx)]\<rparr>),
          (''WriteOpenMRSDatatoDataEFSTask'',
           \<lparr>volumes = [(''TemporaryDataVolume'', data_file_system)],
            containers = [(''OneTimePrepareEFSContainer'', initial_data_sync_to_efs_container ctx)]\<rparr>),
          (''OpenMRSFargateTaskDefinition'',
           \<lparr>volumes = [(''DataFolderVolume'', data_file_system), (''SslFolderVolume'', ssl_file_system)],
            containers =
              [(''GatewayOpenMRSContainer'', gateway_openmrs_container ctx initial_stack),
               (''FrontendOpenMRSContainer'', frontend_openmrs_container ctx),
               (''BackendOpenMRSContainer'', backend_openmrs_container ctx w initial_stack secs)]\<rparr>)] @
         (if create_serverless_analytics_environment ctx = Some ''true'' then
            [(''SyncEFStoS3Task'',
              \<lparr>volumes = [(''DataFolderVolume'', data_file_system)],
               containers = [(''AmazonLinuxContainer'', sync_efs_to_s3_container ctx w)]\<rparr>)]
          else [])"
    and stack_services:
      "\<exists>cert. services s =
         [(''OpenMRSFargateLBService'', openmrs_application_load_balanced_fargate_service cert)]"
proof -
  from assms obtain s10 where
    s10: "create_openmrs_service ctx w (before_service ctx w) = Inr s10" and
    s: "s = create_serverless_analytics_environment_method ctx w s10"
    using stack_split by blast
  let ?b = "with_certificate ctx (before_service ctx w)"
  from service_shape [OF s10] obtain secs cert where
    s10_eq: "s10 = add_dependency ''OpenMRSFargateLBService'' ''OneTimeSSLSetup''
                  (add_service ''OpenMRSFargateLBService''
                     (openmrs_application_load_balanced_fargate_service cert)
                     (add_task_definition ''OpenMRSFargateTaskDefinition''
                        (openmrs_fargate_task_definition ctx w ?b secs) ?b))"
    by blast
  have task: "openmrs_fargate_task_definition ctx w ?b secs =
     \<lparr>volumes = [(''DataFolderVolume'', data_file_system), (''SslFolderVolume'', ssl_file_system)],
      containers =
        [(''GatewayOpenMRSContainer'', gateway_openmrs_container ctx initial_stack),
         (''FrontendOpenMRSContainer'', frontend_openmrs_container ctx),
         (''BackendOpenMRSContainer'', backend_openmrs_container ctx w initial_stack secs)]\<rparr>"
    by (rule service_task_eq) (simp_all add: with_certificate_fields before_service_fields)
  show "dependencies s =
         [(''web-acl'', ''Load-Balancer''), (''ecs-cluster'', ''DatabaseCluster''),
          (''OpenMRSFargateLBService'', ''OneTimeSSLSetup'')]"
    by (simp add: s analytics_other s10_eq table_defs with_certificate_fields before_service_fields)
  show "event_rules s =
         [(''RegularScheduleforSSLMaintenance'',
           \<lparr>rule_schedule = Rate (Days 2), targets = [''MaintainSSLMaterialsLambda'']\<rparr>)]"
    by (simp add: s analytics_other s10_eq table_defs with_certificate_fields before_service_fields)
  show "secrets s =
         ses_secrets ctx @
           [(''Password'', GenerateSecretString True False ''{\"username\": \"admin\"}'' ''password''),
            (''db-secret'', GenerateSecretString True False ''{\"username\": \"dbadmin\"}'' ''password'')]"
    by (simp add: s analytics_other s10_eq table_defs with_certificate_fields before_service_fields)
  have f10: "lambda_functions s10 = lambda_functions (before_service ctx w)"
    by (simp add: s10_eq table_defs with_certificate_fields)
  have fresh: "''EFStoS3ExportLambda'' \<notin> fst ` set (lambda_functions s10)"
    using ses_function_names [of ctx] by (auto simp add: f10 before_service_functions)
  show "lambda_functions s =
         ses_functions ctx @
           [(''MaintainSSLMaterialsLambda'',
             run_task_lambda ''lambda_functions.generate_ssl_materials''
               ''CreateSSLMaterialsTaskDefinition'' w False),
            (''OneTimeSSLSetup'',
             run_task_lambda ''lambda_functions.generate_ssl_materials''
               ''CreateSSLMaterialsTaskDefinition'' w True),
            (''OneTimeEFSDataSetup'',
             run_task_lambda ''lambda_functions.initial_openmrs_data_sync_to_efs''
               ''WriteOpenMRSDatatoDataEFSTask'' w True)] @
           analytics_functions ctx w"
    unfolding s by (subst analytics_functions [OF fresh]) (simp add: f10 before_service_functions)
  have e10: "efs_volume_configuration_for_data_storage s10 = data_file_system"
    by (simp add: s10_eq table_defs with_certificate_fields before_service_fields)
  have "task_definitions s =
         [(''CreateSSLMaterialsTaskDefinition'',
           \<lparr>volumes = [(''SslFolderVolume'', ssl_file_system)],
            containers = [(''SSLMaintenanceContainer'', ssl_maintenance_container ctx)]\<rparr>),
          (''WriteOpenMRSDatatoDataEFSTask'',
           \<lparr>volumes = [(''TemporaryDataVolume'', data_file_system)],
            containers = [(''OneTimePrepareEFSContainer'', initial_data_sync_to_efs_container ctx)]\<rparr>),
          (''OpenMRSFargateTaskDefinition'',
           \<lparr>volumes = [(''DataFolderVolume'', data_file_system), (''SslFolderVolume'', ssl_file_system)],
            containers =
              [(''GatewayOpenMRSContainer'', gateway_openmrs_container ctx initial_stack),
               (''FrontendOpenMRSContainer'', frontend_openmrs_container ctx),
               (''BackendOpenMRSContainer'', backend_openmrs_container ctx w initial_stack secs)]\<rparr>)] @
         (if create_serverless_analytics_environment ctx = Some ''true'' then
            [(''SyncEFStoS3Task'',
              \<lparr>volumes = [(''DataFolderVolume'', data_file_system)],
               containers = [(''AmazonLinuxContainer'', sync_efs_to_s3_container ctx w)]\<rparr>)]
          else [])"
    unfolding s analytics_other sync_efs_to_s3_task_def e10
    by (simp add: s10_eq table_defs with_certificate_fields before_service_tasks task)
  then show "\<exists>secs. task_definitions s =
         [(''CreateSSLMaterialsTaskDefinition'',
           \<lparr>volumes = [(''SslFolderVolume'', ssl_file_system)],
            containers = [(''SSLMaintenanceContainer'', ssl_maintenance_container ctx)]\<rparr>),
          (''WriteOpenMRSDatatoDataEFSTask'',
           \<lparr>volumes = [(''TemporaryDataVolume'', data_file_system)],
            containers = [(''OneTimePrepareEFSContainer'', initial_data_sync_to_efs_container ctx)]\<rparr>),
          (''OpenMRSFargateTaskDefinition'',
           \<lparr>volumes = [(''DataFolderVolume'', data_file_system), (''SslFolderVolume'', ssl_file_system)],
            containers =
              [(''GatewayOpenMRSContainer'', gateway_openmrs_container ctx initial_stack),
               (''FrontendOpenMRSContainer'', frontend_openmrs_container ctx),
               (''BackendOpenMRSContainer'', backend_openmrs_container ctx w initial_stack secs)]\<rparr>)] @
         (if create_serverless_analytics_environment ctx = Some ''true'' then
            [(''SyncEFStoS3Task'',
              \<lparr>volumes = [(''DataFolderVolume'', data_file_system)],
               containers = [(''AmazonLinuxContainer'', sync_efs_to_s3_container ctx w)]\<rparr>)]
          else [])"
    by blast
  have "services s =
         [(''OpenMRSFargateLBService'', openmrs_application_load_balanced_fargate_service cert)]"
    by (simp add: s analytics_other s10_eq table_defs with_certificate_fields before_service_fields)
  then show "\<exists>cert. services s =
         [(''OpenMRSFargateLBService'', openmrs_application_load_balanced_fargate_service cert)]"
    by blast
qed

lemma stack_succeeds:
  assumes "configure_ses ctx = Some ''true'' \<longrightarrow> truthy (route53_domain ctx)"
  shows "\<exists>s. openmrs_ecs_stack ctx w = Inr s"
proof -
  let ?b = "before_service ctx w"
  have "\<exists>s'. create_openmrs_service ctx w ?b = Inr s'"
    using assms
    by (auto simp add: create_openmrs_service_def backend_secrets_def Let_def before_service_fields
          table_defs split: option.splits)
  then show ?thesis
    by (auto simp add: openmrs_ecs_stack_def before_service_def Let_def)
qed

lemma stack_raises:
  assumes "configure_ses ctx = Some ''true''" "\<not> truthy (route53_domain ctx)"
  shows "openmrs_ecs_stack ctx w = Inl (AttributeError ''mail_user'')"
proof -
  let ?b = "before_service ctx w"
  have "create_openmrs_service ctx w ?b = Inl (AttributeError ''mail_user'')"
    using assms
    by (simp add: create_openmrs_service_def backend_secrets_def Let_def before_service_fields)
  then show ?thesis
    by (simp add: openmrs_ecs_stack_def before_service_def Let_def)
qed

lemma default_stack_built: "openmrs_ecs_stack default_context example_world = Inr default_stack"
proof -
  have "\<exists>s. openmrs_ecs_stack default_context example_world = Inr s"
    by (rule stack_succeeds) (simp add: default_context_def)
  then show ?thesis by (auto simp add: default_stack_def)
qed

lemma full_stack_built: "openmrs_ecs_stack full_context example_world = Inr full_stack"
proof -
  have "\<exists>s. openmrs_ecs_stack full_context example_world = Inr s"
    by (rule stack_succeeds) (simp add: full_context_def truthy_def)
  then show ?thesis by (auto simp add: full_stack_def)
qed

lemma stack_triggers:
  assumes "openmrs_ecs_stack ctx w = Inr s"
  shows "trigger_functions s =
     filter (\<lambda>(name, f). is_trigger f) (ses_functions ctx) @
       [(''OneTimeSSLSetup'',
         run_task_lambda ''lambda_functions.generate_ssl_materials''
           ''CreateSSLMaterialsTaskDefinition'' w True),
        (''OneTimeEFSDataSetup'',
         run_task_lambda ''lambda_functions.initial_openmrs_data_sync_to_efs''
           ''WriteOpenMRSDatatoDataEFSTask'' w True)]"
  by (simp add: trigger_functions_def stack_functions [OF assms] run_task_lambda_def
        analytics_functions_def python_lambda_def)

subsection \<open>Looking things up in the stack\<close>

lemma run_task_lambda_fields:
  "handler (run_task_lambda h task w trig) = h"
  "timeout (run_task_lambda h task w trig) = Some (Minutes 10)"
  "is_trigger (run_task_lambda h task w trig) = trig"
  "environment (run_task_lambda h task w trig) =
     [(''ECS_CLUSTER'', ClusterArn ''ecs-cluster''),
      (''TASK_DEFINITION'', TaskDefinitionArn task),
      (''SUBNETS'', Str (private_subnet_id_string w)),
      (''SECURITY_GROUPS'', SecurityGroupId ''EFSOnlySecurityGroup'')]"
  "(run_task_lambda h task w False)\<lparr>is_trigger := True\<rparr> = run_task_lambda h task w True"
  by (simp_all add: run_task_lambda_def)

lemma ses_function_fields:
  "map fst (ses_functions ctx) =
     (if truthy (route53_domain ctx) \<and> configure_ses ctx = Some ''true'' then
        [''SMTPSetup''] @
        (if truthy (email_forwarding_address ctx) then [''EmailForwardingLambda''] else []) @
        [''MakeRuleSetActive'']
      else [])"
  "map fst (filter (\<lambda>(name, f). is_trigger f) (ses_functions ctx)) =
     (if truthy (route53_domain ctx) \<and> configure_ses ctx = Some ''true''
      then [''SMTPSetup'', ''MakeRuleSetActive''] else [])"
  "list_all (\<lambda>(name, f). is_trigger f \<longrightarrow> timeout f = Some (Minutes 10)) (ses_functions ctx)"
  by (simp_all add: ses_functions_def python_lambda_def)

lemma analytics_function_names:
  "map fst (analytics_functions ctx w) =
     (if create_serverless_analytics_environment ctx = Some ''true''
      then [''EFStoS3ExportLambda'', ''RDStoS3ExportLambda''] else [])"
  by (simp add: analytics_functions_def)

lemma stack_function_names:
  assumes "openmrs_ecs_stack ctx w = Inr s"
  shows "map fst (lambda_functions s) =
     (if truthy (route53_domain ctx) \<and> configure_ses ctx = Some ''true'' then
        [''SMTPSetup''] @
        (if truthy (email_forwarding_address ctx) then [''EmailForwardingLambda''] else []) @
        [''MakeRuleSetActive'']
      else []) @
     [''MaintainSSLMaterialsLambda'', ''OneTimeSSLSetup'', ''OneTimeEFSDataSetup''] @
     (if create_serverless_analytics_environment ctx = Some ''true''
      then [''EFStoS3ExportLambda'', ''RDStoS3ExportLambda''] else [])"
  by (simp add: stack_functions [OF assms] ses_function_fields analytics_function_names)


lemma lookup_after: "k \<notin> fst ` set xs \<Longrightarrow> map_of (xs @ ys) k = map_of ys k"
  by (simp add: map_add_dom_app_simps dom_map_of_conv_image_fst)

lemma stack_function_lookup:
  assumes "openmrs_ecs_stack ctx w = Inr s"
  shows "map_of (lambda_functions s) ''MaintainSSLMaterialsLambda'' =
           Some (run_task_lambda ''lambda_functions.generate_ssl_materials''
                   ''CreateSSLMaterialsTaskDefinition'' w False)"
    and "map_of (lambda_functions s) ''OneTimeSSLSetup'' =
           Some (run_task_lambda ''lambda_functions.generate_ssl_materials''
                   ''CreateSSLMaterialsTaskDefinition'' w True)"
    and "map_of (lambda_functions s) ''OneTimeEFSDataSetup'' =
           Some (run_task_lambda ''lambda_functions.initial_openmrs_data_sync_to_efs''
                   ''WriteOpenMRSDatatoDataEFSTask'' w True)"
proof -
  have fresh: "''MaintainSSLMaterialsLambda'' \<notin> fst ` set (ses_functions ctx)"
    "''OneTimeSSLSetup'' \<notin> fst ` set (ses_functions ctx)"
    "''OneTimeEFSDataSetup'' \<notin> fst ` set (ses_functions ctx)"
    using ses_function_names [of ctx] by auto
  show "map_of (lambda_functions s) ''MaintainSSLMaterialsLambda'' =
           Some (run_task_lambda ''lambda_functions.generate_ssl_materials''
                   ''CreateSSLMaterialsTaskDefinition'' w False)"
    by (simp add: stack_functions [OF assms] lookup_after [OF fresh(1)] del: map_of_append)
  show "map_of (lambda_functions s) ''OneTimeSSLSetup'' =
           Some (run_task_lambda ''lambda_functions.generate_ssl_materials''
                   ''CreateSSLMaterialsTaskDefinition'' w True)"
    by (simp add: stack_functions [OF assms] lookup_after [OF fresh(2)] del: map_of_append)
  show "map_of (lambda_functions s) ''OneTimeEFSDataSetup'' =
           Some (run_task_lambda ''lambda_functions.initial_openmrs_data_sync_to_efs''
                   ''WriteOpenMRSDatatoDataEFSTask'' w True)"
    by (simp add: stack_functions [OF assms] lookup_after [OF fresh(3)] del: map_of_append)
qed

lemma ordered_after:
  "deployment_order deps order \<Longrightarrow> (a, b) \<in> set deps \<Longrightarrow> a \<in> set order \<Longrightarrow>
   created_before order b a"
  by (auto simp add: deployment_order_def created_before_def list_all_iff)

lemma full_order: "deployment_order (dependencies full_stack) service_first_order"
  by (simp add: stack_dependencies [OF full_stack_built] deployment_order_def
        service_first_order_def position_def)

section \<open>The claims\<close>

text \<open>
  C1. The claim: the provisioning graph makes the service wait for the one-time data-seed
  trigger. The code: the seed trigger \<^verbatim>\<open>OneTimeEFSDataSetup\<close> is declared in every deployment,
  but the only dependency \<^verbatim>\<open>_create_openmrs_service\<close> adds to the service is the TLS trigger
  \<^verbatim>\<open>OneTimeSSLSetup\<close>. The seed trigger is not among what the service waits for, directly or
  indirectly, and the order \<open>service_first_order\<close>, which creates the service before the
  seed trigger, respects every dependency of the stack.
\<close>

theorem seed_trigger_not_required:
  assumes "openmrs_ecs_stack ctx w = Inr s"
  shows "''OneTimeEFSDataSetup'' \<in> set (map fst (trigger_functions s)) \<and>
         requirements (dependencies s) ''OpenMRSFargateLBService'' =
           [''OpenMRSFargateLBService'', ''OneTimeSSLSetup''] \<and>
         deployment_order (dependencies s) service_first_order \<and>
         created_before service_first_order ''OpenMRSFargateLBService'' ''OneTimeEFSDataSetup''"
proof -
  have "''OneTimeEFSDataSetup'' \<in> set (map fst (trigger_functions s))"
    by (simp add: stack_triggers [OF assms])
  moreover have "requirements (dependencies s) ''OpenMRSFargateLBService'' =
           [''OpenMRSFargateLBService'', ''OneTimeSSLSetup'']"
    by (simp add: stack_dependencies [OF assms] requirements_def numeral_3_eq_3)
  moreover have "deployment_order (dependencies s) service_first_order"
    by (simp add: stack_dependencies [OF assms] deployment_order_def service_first_order_def
          position_def)
  moreover have
    "created_before service_first_order ''OpenMRSFargateLBService'' ''OneTimeEFSDataSetup''"
    by (simp add: created_before_def service_first_order_def position_def)
  ultimately show ?thesis by blast
qed

theorem seed_trigger_not_required_witness:
  "''OneTimeEFSDataSetup'' \<in> set (map fst (trigger_functions default_stack)) \<and>
   ''OneTimeEFSDataSetup'' \<notin> set (requirements (dependencies default_stack) ''OpenMRSFargateLBService'') \<and>
   deployment_order (dependencies default_stack) service_first_order \<and>
   created_before service_first_order ''OpenMRSFargateLBService'' ''OneTimeEFSDataSetup''"
  using seed_trigger_not_required [OF default_stack_built] by simp

text \<open>
  C5. TLS regeneration is triggered once before the service's first start and on a recurring
  schedule, every two days by default, fixed when the stack is provisioned. In every
  deployment the stack holds exactly one schedule rule, at a rate of two days (the value
  \<^verbatim>\<open>__init__\<close> assigns), whose target runs the handler \<^verbatim>\<open>generate_ssl_materials\<close>; the trigger
  \<^verbatim>\<open>OneTimeSSLSetup\<close> runs the same handler; and every order of deployment that creates the
  service creates that trigger before it. Neither the context nor anything known at
  deployment only changes the rate.
\<close>

theorem tls_regeneration_schedule:
  assumes "openmrs_ecs_stack ctx w = Inr s"
  shows "number_of_days_to_regenerate_ssl_materials initial_stack = 2 \<and>
         event_rules s =
           [(''RegularScheduleforSSLMaintenance'',
             \<lparr>rule_schedule = Rate (Days 2), targets = [''MaintainSSLMaterialsLambda'']\<rparr>)] \<and>
         map_option handler (map_of (lambda_functions s) ''MaintainSSLMaterialsLambda'') =
           Some ''lambda_functions.generate_ssl_materials'' \<and>
         map_option handler (map_of (lambda_functions s) ''OneTimeSSLSetup'') =
           Some ''lambda_functions.generate_ssl_materials'' \<and>
         map_option is_trigger (map_of (lambda_functions s) ''OneTimeSSLSetup'') = Some True \<and>
         (\<forall>order. deployment_order (dependencies s) order \<longrightarrow>
            ''OpenMRSFargateLBService'' \<in> set order \<longrightarrow>
            created_before order ''OneTimeSSLSetup'' ''OpenMRSFargateLBService'')"
proof -
  have "(''OpenMRSFargateLBService'', ''OneTimeSSLSetup'') \<in> set (dependencies s)"
    by (simp add: stack_dependencies [OF assms])
  then have "\<forall>order. deployment_order (dependencies s) order \<longrightarrow>
            ''OpenMRSFargateLBService'' \<in> set order \<longrightarrow>
            created_before order ''OneTimeSSLSetup'' ''OpenMRSFargateLBService''"
    using ordered_after by blast
  moreover have "number_of_days_to_regenerate_ssl_materials initial_stack = 2"
    by (simp add: initial_stack_def)
  ultimately show ?thesis
    by (simp add: stack_rules [OF assms] stack_function_lookup [OF assms] run_task_lambda_fields)
qed

theorem tls_regeneration_schedule_witness:
  "event_rules full_stack =
     [(''RegularScheduleforSSLMaintenance'',
       \<lparr>rule_schedule = Rate (Days 2), targets = [''MaintainSSLMaterialsLambda'']\<rparr>)] \<and>
   deployment_order (dependencies full_stack) service_first_order \<and>
   ''OpenMRSFargateLBService'' \<in> set service_first_order \<and>
   created_before service_first_order ''OneTimeSSLSetup'' ''OpenMRSFargateLBService''"
proof -
  have "''OpenMRSFargateLBService'' \<in> set service_first_order"
    by (simp add: service_first_order_def)
  then show ?thesis
    using tls_regeneration_schedule [OF full_stack_built] full_order by blast
qed

text \<open>
  C8. Every bootstrap procedure is a unit of work triggered on its own and awaited with a
  timeout of ten minutes, after which it counts as failed. The trigger functions of the
  stack are the one-time TLS setup and the data seed, and with the mail subsystem the SMTP
  credential and the activation of the rule set; each is a function of its own name, each
  has a timeout of ten minutes, and an invocation of any of them that needs more than 600
  seconds fails, while a shorter one gives what the handler returns.
\<close>

theorem bootstrap_triggers_timeout:
  assumes "openmrs_ecs_stack ctx w = Inr s"
  shows "map fst (trigger_functions s) =
           (if truthy (route53_domain ctx) \<and> configure_ses ctx = Some ''true''
            then [''SMTPSetup'', ''MakeRuleSetActive''] else []) @
           [''OneTimeSSLSetup'', ''OneTimeEFSDataSetup''] \<and>
         distinct (map fst (lambda_functions s)) \<and>
         (\<forall>(name, f) \<in> set (trigger_functions s).
            timeout f = Some (Minutes 10) \<and>
            (\<forall>e. invoke f e = (if 600 < seconds_needed e then Failed else handler_result e)))"
proof -
  have names: "map fst (trigger_functions s) =
           (if truthy (route53_domain ctx) \<and> configure_ses ctx = Some ''true''
            then [''SMTPSetup'', ''MakeRuleSetActive''] else []) @
           [''OneTimeSSLSetup'', ''OneTimeEFSDataSetup'']"
    by (simp add: stack_triggers [OF assms] ses_function_fields)
  have unique: "distinct (map fst (lambda_functions s))"
    by (auto simp add: stack_function_names [OF assms])
  have ten: "\<forall>(name, f) \<in> set (trigger_functions s). timeout f = Some (Minutes 10)"
    using ses_function_fields(3) [of ctx]
    by (auto simp add: stack_triggers [OF assms] list_all_iff run_task_lambda_fields)
  have stop: "invoke f e = (if 600 < seconds_needed e then Failed else handler_result e)"
    if "timeout f = Some (Minutes 10)" for f e
    using that by (simp add: invoke_def timeout_seconds_def)
  from ten stop have "\<forall>(name, f) \<in> set (trigger_functions s).
            timeout f = Some (Minutes 10) \<and>
            (\<forall>e. invoke f e = (if 600 < seconds_needed e then Failed else handler_result e))"
    by fast
  with names unique show ?thesis by blast
qed

theorem bootstrap_triggers_timeout_witness:
  "map fst (trigger_functions full_stack) =
     [''SMTPSetup'', ''MakeRuleSetActive'', ''OneTimeSSLSetup'', ''OneTimeEFSDataSetup''] \<and>
   list_all (\<lambda>(name, f). timeout f = Some (Minutes 10) \<and>
      invoke f \<lparr>seconds_needed = 601, handler_result = Succeeded\<rparr> = Failed \<and>
      invoke f \<lparr>seconds_needed = 600, handler_result = Succeeded\<rparr> = Succeeded)
     (trigger_functions full_stack)"
  using bootstrap_triggers_timeout [OF full_stack_built]
  by (simp add: full_context_def truthy_def list_all_iff case_prod_beta)

text \<open>
  C10. The one-time TLS setup and the scheduled TLS refresh invoke the same handler against
  the same job configuration. The function the schedule targets and the trigger function
  have the handler \<^verbatim>\<open>lambda_functions.generate_ssl_materials\<close> and the same environment: the
  cluster, the task definition of the TLS job, the private subnets and the security group.
  They differ in nothing but that one of them is a trigger.
\<close>

theorem tls_trigger_paths_equivalent:
  assumes "openmrs_ecs_stack ctx w = Inr s"
  shows "\<exists>f g. map_of (lambda_functions s) ''MaintainSSLMaterialsLambda'' = Some f \<and>
           map_of (lambda_functions s) ''OneTimeSSLSetup'' = Some g \<and>
           map_option targets (map_of (event_rules s) ''RegularScheduleforSSLMaintenance'') =
             Some [''MaintainSSLMaterialsLambda''] \<and>
           \<not> is_trigger f \<and> is_trigger g \<and>
           handler f = ''lambda_functions.generate_ssl_materials'' \<and>
           handler g = ''lambda_functions.generate_ssl_materials'' \<and>
           environment f =
             [(''ECS_CLUSTER'', ClusterArn ''ecs-cluster''),
              (''TASK_DEFINITION'', TaskDefinitionArn ''CreateSSLMaterialsTaskDefinition''),
              (''SUBNETS'', Str (join '','' (private_subnet_ids w))),
              (''SECURITY_GROUPS'', SecurityGroupId ''EFSOnlySecurityGroup'')] \<and>
           environment g = environment f \<and>
           g = f\<lparr>is_trigger := True\<rparr>"
  by (simp add: stack_function_lookup [OF assms] stack_rules [OF assms] run_task_lambda_fields
        private_subnet_id_string_def)

theorem tls_trigger_paths_equivalent_witness:
  "map_option environment (map_of (lambda_functions default_stack) ''MaintainSSLMaterialsLambda'') =
     Some [(''ECS_CLUSTER'', ClusterArn ''ecs-cluster''),
           (''TASK_DEFINITION'', TaskDefinitionArn ''CreateSSLMaterialsTaskDefinition''),
           (''SUBNETS'', Str ''subnet-0a,subnet-0b''),
           (''SECURITY_GROUPS'', SecurityGroupId ''EFSOnlySecurityGroup'')] \<and>
   map_option environment (map_of (lambda_functions default_stack) ''OneTimeSSLSetup'') =
     map_option environment (map_of (lambda_functions default_stack) ''MaintainSSLMaterialsLambda'')"
  using tls_trigger_paths_equivalent [OF default_stack_built]
  by (auto simp add: example_world_def)

end
